theory Spec2Isabelle
  imports Main "HOL-Library.Product_Lexorder"
begin

section \<open>Python values used by the script\<close>

text \<open>
  A Python \<^verbatim>\<open>str\<close> is a sequence of Unicode code points, so text is modelled as a
  list of code points (natural numbers) and not as a list of 8-bit characters.
  \<open>ascii\<close> turns a literal into its code points.
\<close>

type_synonym pystr = "nat list"

definition ascii :: "string \<Rightarrow> pystr" where
  "ascii s = map of_char s"

text \<open>Exceptions are values; every \<^verbatim>\<open>raise\<close> of the script is an \<open>Inl\<close>.\<close>

datatype py_error =
    RuntimeError pystr
  | SystemExit pystr
  | KeyError pystr
  | TypeError
  | AttributeError
  | ValueError
  | FileNotFoundError pystr
  | OtherError pystr

text \<open>\<^verbatim>\<open>str(n)\<close> for an integer: decimal digits, with a minus sign when negative.\<close>

fun str_nat :: "nat \<Rightarrow> pystr" where
  "str_nat n = (if n < 10 then [48 + n] else str_nat (n div 10) @ [48 + n mod 10])"

declare str_nat.simps [simp del]

definition str_int :: "int \<Rightarrow> pystr" where
  "str_int i = (if i < 0 then 45 # str_nat (nat (- i)) else str_nat (nat i))"

text \<open>
  The values of the replacement dictionary (\<^verbatim>\<open>Dict[str, object]\<close>): the script
  passes integers; strings are the other value whose \<^verbatim>\<open>str()\<close> is text itself.
\<close>

datatype pyval = IntV int | StrV pystr

fun py_str :: "pyval \<Rightarrow> pystr" where
  "py_str (IntV i) = str_int i"
| "py_str (StrV s) = s"

section \<open>The template renderer\<close>

text \<open>
  \<^verbatim>\<open>PLACEHOLDER_PATTERN = re.compile(r"\{\{\s*([A-Z0-9_]+)\s*\}\}")\<close>

  \<^verbatim>\<open>\s\<close> on a \<^verbatim>\<open>str\<close> pattern is Unicode white space (the code points for which
  \<^verbatim>\<open>str.isspace\<close> holds); \<^verbatim>\<open>[A-Z0-9_]\<close> is the ASCII ranges.
\<close>

definition is_space :: "nat \<Rightarrow> bool" where
  "is_space c \<longleftrightarrow>
     (9 \<le> c \<and> c \<le> 13) \<or> (28 \<le> c \<and> c \<le> 32) \<or> c = 133 \<or> c = 160 \<or> c = 5760 \<or>
     (8192 \<le> c \<and> c \<le> 8202) \<or> c = 8232 \<or> c = 8233 \<or> c = 8239 \<or> c = 8287 \<or> c = 12288"

definition is_token_char :: "nat \<Rightarrow> bool" where
  "is_token_char c \<longleftrightarrow> (65 \<le> c \<and> c \<le> 90) \<or> (48 \<le> c \<and> c \<le> 57) \<or> c = 95"

definition lbrace :: nat where "lbrace = 123"
definition rbrace :: nat where "rbrace = 125"

text \<open>
  The language of the pattern, read off the regular expression: two opening braces,
  white space, a non-empty token, white space, two closing braces.
  \<open>is_placeholder p tok\<close>: the text \<open>p\<close> matches the pattern with group 1 equal to
  \<open>tok\<close>.
\<close>

definition is_placeholder :: "pystr \<Rightarrow> pystr \<Rightarrow> bool" where
  "is_placeholder p tok \<longleftrightarrow>
     (\<exists>ws1 ws2. p = [lbrace, lbrace] @ ws1 @ tok @ ws2 @ [rbrace, rbrace] \<and>
        list_all is_space ws1 \<and> tok \<noteq> [] \<and> list_all is_token_char tok \<and>
        list_all is_space ws2)"

text \<open>
  The match of the pattern at the start of a text, as the regular expression engine
  finds it: each starred or plussed class is taken greedily. The three classes and
  the braces are pairwise disjoint, so the greedy choice is the only one that can
  succeed and backtracking never finds another match. The result is group 0, group 1
  and the text after the match.
\<close>

definition placeholder_match :: "pystr \<Rightarrow> (pystr \<times> pystr \<times> pystr) option" where
  "placeholder_match s =
     (if take 2 s = [lbrace, lbrace] then
        (let r0 = drop 2 s;
             ws1 = takeWhile is_space r0; r1 = dropWhile is_space r0;
             tok = takeWhile is_token_char r1; r2 = dropWhile is_token_char r1;
             ws2 = takeWhile is_space r2; r3 = dropWhile is_space r2
         in if tok \<noteq> [] \<and> take 2 r3 = [rbrace, rbrace]
            then Some ([lbrace, lbrace] @ ws1 @ tok @ ws2 @ [rbrace, rbrace], tok, drop 2 r3)
            else None)
      else None)"

text \<open>\<^verbatim>\<open>str.strip()\<close>: white space removed at both ends.\<close>

definition strip :: "pystr \<Rightarrow> pystr" where
  "strip s = rev (dropWhile is_space (rev (dropWhile is_space s)))"

text \<open>
  \<^verbatim>\<open>
  def substitute(match):
      key = match.group(1).strip()
      if key in replacements:
          return str(replacements[key])
      return match.group(0)
  \<close>
  \<^verbatim>\<open>replacements[key]\<close> raises \<^verbatim>\<open>KeyError\<close> on a missing key.
\<close>

definition subscript_dict :: "(pystr \<rightharpoonup> pyval) \<Rightarrow> pystr \<Rightarrow> py_error + pyval" where
  "subscript_dict d k = (case d k of None \<Rightarrow> Inl (KeyError k) | Some v \<Rightarrow> Inr v)"

definition substitute :: "(pystr \<rightharpoonup> pyval) \<Rightarrow> pystr \<Rightarrow> pystr \<Rightarrow> py_error + pystr" where
  "substitute replacements group0 group1 =
     (let key = strip group1 in
      if replacements key \<noteq> None then
        (case subscript_dict replacements key of Inl e \<Rightarrow> Inl e | Inr v \<Rightarrow> Inr (py_str v))
      else Inr group0)"

lemma placeholder_match_shorter:
  "placeholder_match s = Some (g0, g1, rest) \<Longrightarrow> length rest < length s"
proof -
  assume m: "placeholder_match s = Some (g0, g1, rest)"
  let ?r3 = "dropWhile is_space (dropWhile is_token_char (dropWhile is_space (drop 2 s)))"
  from m have t: "take 2 s = [lbrace, lbrace]" and r: "rest = drop 2 ?r3"
    by (auto simp: placeholder_match_def Let_def split: if_splits)
  from t have "length (take 2 s) = 2" by simp
  then have two: "2 \<le> length s" by simp
  have "length ?r3 \<le> length (drop 2 s)"
    by (meson length_dropWhile_le order_trans)
  with two r show ?thesis by simp
qed

text \<open>
  \<^verbatim>\<open>PLACEHOLDER_PATTERN.sub(substitute, template_text)\<close>: scan from the left; where
  the pattern matches, emit the callback's result and go on after the match; elsewhere
  copy one code point. The pattern never matches the empty text.
\<close>

function pattern_sub :: "(pystr \<rightharpoonup> pyval) \<Rightarrow> pystr \<Rightarrow> py_error + pystr" where
  "pattern_sub replacements [] = Inr []"
| "pattern_sub replacements (c # cs) =
     (case placeholder_match (c # cs) of
        None \<Rightarrow>
          (case pattern_sub replacements cs of
             Inl e \<Rightarrow> Inl e
           | Inr out \<Rightarrow> Inr (c # out))
      | Some (group0, group1, rest) \<Rightarrow>
          (case substitute replacements group0 group1 of
             Inl e \<Rightarrow> Inl e
           | Inr v \<Rightarrow>
               (case pattern_sub replacements rest of
                  Inl e \<Rightarrow> Inl e
                | Inr out \<Rightarrow> Inr (v @ out))))"
  by pat_completeness auto
termination
  by (relation "measure (\<lambda>(m, s). length s)") (auto dest: placeholder_match_shorter)

definition render_template :: "pystr \<Rightarrow> (pystr \<rightharpoonup> pyval) \<Rightarrow> py_error + pystr" where
  "render_template template_text replacements = pattern_sub replacements template_text"


text \<open>
  \<open>has_placeholder t\<close>: some substring of \<open>t\<close> matches the pattern.
  \<open>pattern_search\<close> is \<^verbatim>\<open>PLACEHOLDER_PATTERN.search(t) is not None\<close>, the same
  question answered by running the matcher at every position.
\<close>

definition has_placeholder :: "pystr \<Rightarrow> bool" where
  "has_placeholder t \<longleftrightarrow> (\<exists>a p tok b. t = a @ p @ b \<and> is_placeholder p tok)"

fun pattern_search :: "pystr \<Rightarrow> bool" where
  "pattern_search [] = False"
| "pattern_search (c # cs) = (placeholder_match (c # cs) \<noteq> None \<or> pattern_search cs)"


section \<open>JSON values and the operations the script applies to them\<close>

text \<open>
  The result of \<^verbatim>\<open>json.loads\<close>. A decoded object is a dictionary, modelled by the
  list of its items; a key is looked up with \<open>map_of\<close>. The numbers the script reads
  are GraphQL \<^verbatim>\<open>Int\<close> fields, so numbers are integers.
\<close>

datatype json =
    JNull
  | JBool bool
  | JInt int
  | JStr pystr
  | JList "json list"
  | JObj "(pystr \<times> json) list"

text \<open>Truth value of a decoded value, as \<^verbatim>\<open>if not x\<close> tests it.\<close>

fun truthy :: "json \<Rightarrow> bool" where
  "truthy JNull = False"
| "truthy (JBool b) = b"
| "truthy (JInt i) = (i \<noteq> 0)"
| "truthy (JStr s) = (s \<noteq> [])"
| "truthy (JList xs) = (xs \<noteq> [])"
| "truthy (JObj kvs) = (kvs \<noteq> [])"

text \<open>
  \<^verbatim>\<open>x[key]\<close> with a string key: \<^verbatim>\<open>KeyError\<close> on a dictionary without the key,
  \<^verbatim>\<open>TypeError\<close> on every other value.
\<close>

fun subscript :: "json \<Rightarrow> pystr \<Rightarrow> py_error + json" where
  "subscript (JObj kvs) k = (case map_of kvs k of None \<Rightarrow> Inl (KeyError k) | Some v \<Rightarrow> Inr v)"
| "subscript _ k = Inl TypeError"

text \<open>\<^verbatim>\<open>x.get(key)\<close>: only a dictionary has the method.\<close>

fun dict_get :: "json \<Rightarrow> pystr \<Rightarrow> py_error + json" where
  "dict_get (JObj kvs) k = Inr (case map_of kvs k of None \<Rightarrow> JNull | Some v \<Rightarrow> v)"
| "dict_get _ k = Inl AttributeError"

text \<open>
  \<^verbatim>\<open>total += x\<close> with an integer total: an integer is added, a boolean counts as 0 or
  1, anything else is a \<^verbatim>\<open>TypeError\<close>.
\<close>

fun add_int :: "int \<Rightarrow> json \<Rightarrow> py_error + int" where
  "add_int tot (JInt n) = Inr (tot + n)"
| "add_int tot (JBool b) = Inr (tot + (if b then 1 else 0))"
| "add_int tot _ = Inl TypeError"

text \<open>
  \<^verbatim>\<open>for repo in x\<close>: a list yields its elements, a dictionary its keys, a string its
  characters; nothing else is iterable.
\<close>

fun iterate :: "json \<Rightarrow> py_error + json list" where
  "iterate (JList xs) = Inr xs"
| "iterate (JObj kvs) = Inr (map (\<lambda>kv. JStr (fst kv)) kvs)"
| "iterate (JStr s) = Inr (map (\<lambda>c. JStr [c]) s)"
| "iterate _ = Inl TypeError"

section \<open>Dates and times\<close>

text \<open>
  A \<^verbatim>\<open>datetime\<close> in UTC, by its fields. The creation date the API returns ends in
  \<^verbatim>\<open>Z\<close> and \<^verbatim>\<open>now\<close> is taken in UTC, so every value the script compares carries the
  UTC zone; two such values compare by their fields, first field first.
\<close>

record datetime =
  year :: nat
  month :: nat
  day :: nat
  hour :: nat
  minute :: nat
  second :: nat
  microsecond :: nat

definition dt_key :: "datetime \<Rightarrow> nat \<times> nat \<times> nat \<times> nat \<times> nat \<times> nat \<times> nat" where
  "dt_key d = (year d, month d, day d, hour d, minute d, second d, microsecond d)"

definition dt_less :: "datetime \<Rightarrow> datetime \<Rightarrow> bool" where
  "dt_less a b \<longleftrightarrow> dt_key a < dt_key b"

definition dt_le :: "datetime \<Rightarrow> datetime \<Rightarrow> bool" where
  "dt_le a b \<longleftrightarrow> dt_key a \<le> dt_key b"

definition MAXYEAR :: nat where "MAXYEAR = 9999"

text \<open>
  \<^verbatim>\<open>datetime(y, 1, 1, tzinfo=timezone.utc)\<close>: midnight of January 1st; the constructor
  raises \<^verbatim>\<open>ValueError\<close> for a year outside 1..9999.
\<close>

definition year_start :: "nat \<Rightarrow> py_error + datetime" where
  "year_start y =
     (if 1 \<le> y \<and> y \<le> MAXYEAR
      then Inr \<lparr>year = y, month = 1, day = 1, hour = 0, minute = 0, second = 0, microsecond = 0\<rparr>
      else Inl ValueError)"

text \<open>
  \<^verbatim>\<open>dt.astimezone(timezone.utc).replace(microsecond=0).isoformat().replace("+00:00", "Z")\<close>:
  the fields down to the second, zero-padded; the microseconds are dropped.
\<close>

definition pad :: "nat \<Rightarrow> nat \<Rightarrow> pystr" where
  "pad w n = replicate (w - length (str_nat n)) 48 @ str_nat n"

definition isoformat :: "datetime \<Rightarrow> pystr" where
  "isoformat dt =
     pad 4 (year dt) @ ascii ''-'' @ pad 2 (month dt) @ ascii ''-'' @ pad 2 (day dt) @
     ascii ''T'' @ pad 2 (hour dt) @ ascii '':'' @ pad 2 (minute dt) @ ascii '':'' @
     pad 2 (second dt) @ ascii ''Z''"

text \<open>\<^verbatim>\<open>s.replace("Z", "+00:00")\<close>: every \<^verbatim>\<open>Z\<close> of the text is replaced.\<close>

definition replace_Z :: "pystr \<Rightarrow> pystr" where
  "replace_Z s = concat (map (\<lambda>c. if c = 90 then ascii ''+00:00'' else [c]) s)"

section \<open>The outside world\<close>

text \<open>
  The three query texts of the script are constants; a request is the bearer token,
  the query and the variables. The observable actions of a run are recorded in order
  in a trace.
\<close>

datatype query = CreatedAtQuery | ContributionsQuery | StarsQuery

record request =
  req_token :: pystr
  req_query :: query
  req_variables :: "(pystr \<times> json) list"

datatype event =
    Net request
  | Print pystr
  | ReadFile pystr
  | WriteFile pystr pystr

text \<open>
  What \<^verbatim>\<open>urlopen\<close>, \<^verbatim>\<open>read\<close>, \<^verbatim>\<open>decode\<close> and \<^verbatim>\<open>json.loads\<close> do with a request: an
  \<^verbatim>\<open>HTTPError\<close> with its status code and decoded body, any other exception (which
  \<open>execute\<close> does not catch), or the decoded JSON body.
\<close>

datatype http_outcome =
    HTTPError int pystr
  | Failure py_error
  | Body json

text \<open>
  The parts of the run the script does not define are parameters: the remote end (its
  answer may depend on everything that happened before), the clock, and the library
  functions \<^verbatim>\<open>str\<close> on a decoded value, \<^verbatim>\<open>datetime.fromisoformat\<close> (here returning
  UTC values) and \<^verbatim>\<open>str\<close> on a \<^verbatim>\<open>Path\<close>.
\<close>

record platform =
  network :: "event list \<Rightarrow> request \<Rightarrow> http_outcome"
  clock :: "event list \<Rightarrow> datetime"
  json_str :: "json \<Rightarrow> pystr"
  fromisoformat :: "pystr \<Rightarrow> py_error + datetime"
  path_str :: "pystr \<Rightarrow> pystr"

section \<open>The API client\<close>

text \<open>
  The checks of \<open>execute\<close> on the decoded body. \<^verbatim>\<open>"errors" in data\<close> and the
  subscripts that follow end in a \<^verbatim>\<open>TypeError\<close> whenever the body is not an object.
\<close>

definition transport_message :: "int \<Rightarrow> pystr \<Rightarrow> pystr" where
  "transport_message code detail =
     ascii ''GraphQL request failed ('' @ str_int code @ ascii ''): '' @ detail"

definition api_message :: "pystr \<Rightarrow> pystr" where
  "api_message payload = ascii ''GraphQL API returned errors: '' @ payload"

fun check_response :: "(json \<Rightarrow> pystr) \<Rightarrow> json \<Rightarrow> py_error + json" where
  "check_response to_str (JObj kvs) =
     (case map_of kvs (ascii ''errors'') of
        Some errs \<Rightarrow> Inl (RuntimeError (api_message (to_str errs)))
      | None \<Rightarrow> subscript (JObj kvs) (ascii ''data''))"
| "check_response to_str _ = Inl TypeError"

definition execute ::
  "platform \<Rightarrow> pystr \<Rightarrow> query \<Rightarrow> (pystr \<times> json) list \<Rightarrow> event list \<Rightarrow>
   (py_error + json) \<times> event list" where
  "execute P token q variables tr =
     (let req = \<lparr>req_token = token, req_query = q, req_variables = variables\<rparr>;
          tr' = tr @ [Net req]
      in case network P tr req of
           HTTPError code detail \<Rightarrow> (Inl (RuntimeError (transport_message code detail)), tr')
         | Failure e \<Rightarrow> (Inl e, tr')
         | Body data \<Rightarrow> (check_response (json_str P) data, tr'))"

section \<open>The stats aggregator\<close>

definition not_found_message :: "pystr \<Rightarrow> pystr" where
  "not_found_message login =
     ascii ''User '' @ [39] @ login @ [39] @ ascii '' not found when fetching creation date.''"

definition parse_created_at :: "platform \<Rightarrow> json \<Rightarrow> py_error + datetime" where
  "parse_created_at P created_at =
     (case created_at of
        JStr s \<Rightarrow> fromisoformat P (replace_Z s)
      | _ \<Rightarrow> Inl AttributeError)"

definition fetch_user_created_at ::
  "platform \<Rightarrow> pystr \<Rightarrow> pystr \<Rightarrow> event list \<Rightarrow> (py_error + datetime) \<times> event list" where
  "fetch_user_created_at P client login tr =
     (case execute P client CreatedAtQuery [(ascii ''login'', JStr login)] tr of
        (Inl e, tr') \<Rightarrow> (Inl e, tr')
      | (Inr data, tr') \<Rightarrow>
          (case dict_get data (ascii ''user'') of
             Inl e \<Rightarrow> (Inl e, tr')
           | Inr user \<Rightarrow>
               if \<not> truthy user then (Inl (RuntimeError (not_found_message login)), tr')
               else (case subscript user (ascii ''createdAt'') of
                       Inl e \<Rightarrow> (Inl e, tr')
                     | Inr created_at \<Rightarrow> (parse_created_at P created_at, tr'))))"

text \<open>
  \<^verbatim>\<open>data["user"]["contributionsCollection"]["totalCommitContributions"]\<close> added to the
  running total.
\<close>

definition add_contributions :: "int \<Rightarrow> json \<Rightarrow> py_error + int" where
  "add_contributions tot data =
     (case subscript data (ascii ''user'') of
        Inl e \<Rightarrow> Inl e
      | Inr user \<Rightarrow>
          (case subscript user (ascii ''contributionsCollection'') of
             Inl e \<Rightarrow> Inl e
           | Inr collection \<Rightarrow>
               (case subscript collection (ascii ''totalCommitContributions'') of
                  Inl e \<Rightarrow> Inl e
                | Inr n \<Rightarrow> add_int tot n)))"

definition contributions_variables :: "pystr \<Rightarrow> datetime \<Rightarrow> datetime \<Rightarrow> (pystr \<times> json) list" where
  "contributions_variables login period_start period_end =
     [(ascii ''login'', JStr login),
      (ascii ''from'', JStr (isoformat period_start)),
      (ascii ''to'', JStr (isoformat period_end))]"

lemma dt_less_year: "dt_less a b \<Longrightarrow> year a \<le> year b"
  by (auto simp: dt_less_def dt_key_def less_prod_def)

text \<open>
  The \<^verbatim>\<open>while period_start < now\<close> loop of \<open>fetch_commit_total\<close>, with the running
  total and the trace as its state.
\<close>

function commit_loop ::
  "platform \<Rightarrow> pystr \<Rightarrow> pystr \<Rightarrow> datetime \<Rightarrow> datetime \<Rightarrow> int \<Rightarrow> event list \<Rightarrow>
   (py_error + int) \<times> event list" where
  "commit_loop P client login now period_start total_commits tr =
     (if dt_less period_start now then
        (case year_start (year period_start + 1) of
           Inl e \<Rightarrow> (Inl e, tr)
         | Inr boundary \<Rightarrow>
             (let period_end = (if dt_less now boundary then now else boundary) in
              case execute P client ContributionsQuery
                     (contributions_variables login period_start period_end) tr of
                (Inl e, tr') \<Rightarrow> (Inl e, tr')
              | (Inr data, tr') \<Rightarrow>
                  (case add_contributions total_commits data of
                     Inl e \<Rightarrow> (Inl e, tr')
                   | Inr total' \<Rightarrow> commit_loop P client login now period_end total' tr')))
      else (Inr total_commits, tr))"
  by pat_completeness auto
termination
proof (relation "measure (\<lambda>(P, client, login, now, period_start, total_commits, tr).
          if dt_less period_start now then year now + 1 - year period_start else 0)")
  show "wf (measure (\<lambda>(P, client, login, now, period_start, total_commits, tr).
          if dt_less period_start now then year now + 1 - year period_start else 0))"
    by simp
next
  fix P :: platform and client login :: pystr and now period_start :: datetime
    and total_commits :: int and tr :: "event list" and boundary period_end x2 y data total'
  assume lt: "dt_less period_start now"
    and b: "year_start (year period_start + 1) = Inr boundary"
    and pe: "period_end = (if dt_less now boundary then now else boundary)"
  from lt have y: "year period_start \<le> year now" by (rule dt_less_year)
  from b have yb: "year boundary = year period_start + 1"
    by (auto simp: year_start_def split: if_splits)
  show "((P, client, login, now, period_end, total', y), P, client, login, now, period_start, total_commits, tr)
        \<in> measure (\<lambda>(P, client, login, now, period_start, total_commits, tr).
             if dt_less period_start now then year now + 1 - year period_start else 0)"
  proof (cases "dt_less now boundary")
    case True
    with pe lt y show ?thesis by (simp add: dt_less_def)
  next
    case False
    with pe have e: "period_end = boundary" by simp
    show ?thesis
    proof (cases "dt_less boundary now")
      case True
      from dt_less_year [OF True] yb y lt e True show ?thesis by simp
    next
      case False
      with lt e y show ?thesis by simp
    qed
  qed
qed

declare commit_loop.simps [simp del]

definition fetch_commit_total ::
  "platform \<Rightarrow> pystr \<Rightarrow> pystr \<Rightarrow> event list \<Rightarrow> (py_error + int) \<times> event list" where
  "fetch_commit_total P client login tr =
     (case fetch_user_created_at P client login tr of
        (Inl e, tr') \<Rightarrow> (Inl e, tr')
      | (Inr created_at, tr') \<Rightarrow> commit_loop P client login (clock P tr') created_at 0 tr')"

text \<open>\<^verbatim>\<open>for repo in nodes: total_stars += repo["stargazerCount"]\<close>\<close>

fun sum_stars :: "json list \<Rightarrow> int \<Rightarrow> py_error + int" where
  "sum_stars [] total_stars = Inr total_stars"
| "sum_stars (repo # rest) total_stars =
     (case subscript repo (ascii ''stargazerCount'') of
        Inl e \<Rightarrow> Inl e
      | Inr n \<Rightarrow>
          (case add_int total_stars n of
             Inl e \<Rightarrow> Inl e
           | Inr total' \<Rightarrow> sum_stars rest total'))"

text \<open>
  One page of the star loop after the request: the new total, and the next cursor
  when \<^verbatim>\<open>hasNextPage\<close> is true.
\<close>

definition stars_page :: "json \<Rightarrow> int \<Rightarrow> py_error + (int \<times> json option)" where
  "stars_page data total_stars =
     (case subscript data (ascii ''user'') of
        Inl e \<Rightarrow> Inl e
      | Inr user \<Rightarrow>
     (case subscript user (ascii ''repositories'') of
        Inl e \<Rightarrow> Inl e
      | Inr repos \<Rightarrow>
     (case subscript repos (ascii ''nodes'') of
        Inl e \<Rightarrow> Inl e
      | Inr nodes \<Rightarrow>
     (case iterate nodes of
        Inl e \<Rightarrow> Inl e
      | Inr repo_list \<Rightarrow>
     (case sum_stars repo_list total_stars of
        Inl e \<Rightarrow> Inl e
      | Inr total' \<Rightarrow>
     (case subscript repos (ascii ''pageInfo'') of
        Inl e \<Rightarrow> Inl e
      | Inr page_info \<Rightarrow>
     (case subscript page_info (ascii ''hasNextPage'') of
        Inl e \<Rightarrow> Inl e
      | Inr has_next \<Rightarrow>
          if \<not> truthy has_next then Inr (total', None)
          else (case subscript page_info (ascii ''endCursor'') of
                  Inl e \<Rightarrow> Inl e
                | Inr cursor \<Rightarrow> Inr (total', Some cursor)))))))))"

text \<open>
  The \<^verbatim>\<open>while True\<close> loop of \<open>fetch_total_stars\<close>. Nothing bounds the number of
  pages the remote end announces, so the loop may run forever: then the result is
  \<open>None\<close>.
\<close>

partial_function (option) stars_loop ::
  "platform \<Rightarrow> pystr \<Rightarrow> pystr \<Rightarrow> json \<Rightarrow> int \<Rightarrow> event list \<Rightarrow>
   ((py_error + int) \<times> event list) option" where
  "stars_loop P client login cursor total_stars tr =
     (case execute P client StarsQuery
             [(ascii ''login'', JStr login), (ascii ''cursor'', cursor)] tr of
        (Inl e, tr') \<Rightarrow> Some (Inl e, tr')
      | (Inr data, tr') \<Rightarrow>
          (case stars_page data total_stars of
             Inl e \<Rightarrow> Some (Inl e, tr')
           | Inr (total', None) \<Rightarrow> Some (Inr total', tr')
           | Inr (total', Some cursor') \<Rightarrow> stars_loop P client login cursor' total' tr'))"

definition fetch_total_stars ::
  "platform \<Rightarrow> pystr \<Rightarrow> pystr \<Rightarrow> event list \<Rightarrow> ((py_error + int) \<times> event list) option" where
  "fetch_total_stars P client login tr = stars_loop P client login JNull 0 tr"

section \<open>The entry point\<close>

text \<open>
  The parsed command line (an option that was not given is \<open>None\<close>), and the state of
  a run: the environment variables, the files by path, and the trace of actions.
\<close>

record cli_args =
  arg_template :: "pystr option"
  arg_readme :: "pystr option"
  arg_login :: "pystr option"

record world =
  environ :: "pystr \<rightharpoonup> pystr"
  files :: "pystr \<rightharpoonup> pystr"
  trace :: "event list"

text \<open>\<^verbatim>\<open>a or b\<close> on optional strings, and \<^verbatim>\<open>not x\<close>: unset and empty are both false.\<close>

definition py_or :: "pystr option \<Rightarrow> pystr option \<Rightarrow> pystr option" where
  "py_or a b = (case a of None \<Rightarrow> b | Some s \<Rightarrow> if s = [] then b else a)"

definition falsy :: "pystr option \<Rightarrow> bool" where
  "falsy x \<longleftrightarrow> x = None \<or> x = Some []"

definition token_of :: "world \<Rightarrow> pystr option" where
  "token_of w = py_or (environ w (ascii ''GITHUB_TOKEN'')) (environ w (ascii ''TOKEN''))"

definition login_of :: "cli_args \<Rightarrow> world \<Rightarrow> pystr option" where
  "login_of args w =
     (case arg_login args of
        None \<Rightarrow> environ w (ascii ''GITHUB_REPOSITORY_OWNER'')
      | Some l \<Rightarrow> Some l)"

definition template_of :: "cli_args \<Rightarrow> pystr" where
  "template_of args = (case arg_template args of None \<Rightarrow> ascii ''TEMPLATE.md'' | Some p \<Rightarrow> p)"

definition readme_of :: "cli_args \<Rightarrow> pystr" where
  "readme_of args = (case arg_readme args of None \<Rightarrow> ascii ''README.md'' | Some p \<Rightarrow> p)"

definition missing_token_message :: pystr where
  "missing_token_message =
     ascii ''Missing GITHUB_TOKEN environment variable for GitHub API access.''"

definition missing_login_message :: pystr where
  "missing_login_message =
     ascii ''GitHub login is not specified. Pass --login or set GITHUB_REPOSITORY_OWNER.''"

definition fetching_message :: "pystr \<Rightarrow> pystr" where
  "fetching_message login = ascii ''Fetching stats for '' @ login @ [32, 8230]"

definition stars_message :: "int \<Rightarrow> pystr" where
  "stars_message stars = ascii ''Total stars: '' @ str_int stars"

definition commits_message :: "int \<Rightarrow> pystr" where
  "commits_message commits = ascii ''Total commits: '' @ str_int commits"

definition updated_message :: "platform \<Rightarrow> pystr \<Rightarrow> pystr \<Rightarrow> pystr" where
  "updated_message P readme template =
     ascii ''Updated '' @ path_str P readme @ ascii '' from '' @ path_str P template @
     ascii '' with latest stats.''"

definition stats_mapping :: "int \<Rightarrow> int \<Rightarrow> (pystr \<rightharpoonup> pyval)" where
  "stats_mapping stars commits =
     [ascii ''STARS'' \<mapsto> IntV stars, ascii ''COMMITS'' \<mapsto> IntV commits]"

text \<open>
  The body of \<open>main\<close> after the two configuration checks: fetch the stars, fetch the
  commits, read the template, render, write. An exception ends the run where it is
  raised. Reading a path that is not there raises; the write replaces the file.
\<close>

definition generate ::
  "platform \<Rightarrow> pystr \<Rightarrow> pystr \<Rightarrow> pystr \<Rightarrow> pystr \<Rightarrow> world \<Rightarrow>
   ((py_error + unit) \<times> world) option" where
  "generate P token login template readme w =
     (case fetch_total_stars P token login (trace w @ [Print (fetching_message login)]) of
        None \<Rightarrow> None
      | Some (Inl e, tr1) \<Rightarrow> Some (Inl e, w\<lparr>trace := tr1\<rparr>)
      | Some (Inr stars, tr1) \<Rightarrow>
          (case fetch_commit_total P token login tr1 of
             (Inl e, tr2) \<Rightarrow> Some (Inl e, w\<lparr>trace := tr2\<rparr>)
           | (Inr commits, tr2) \<Rightarrow>
               (let tr3 = tr2 @ [Print (stars_message stars), Print (commits_message commits),
                                 ReadFile template]
                in case files w template of
                     None \<Rightarrow> Some (Inl (FileNotFoundError template), w\<lparr>trace := tr3\<rparr>)
                   | Some template_text \<Rightarrow>
                       (case render_template template_text (stats_mapping stars commits) of
                          Inl e \<Rightarrow> Some (Inl e, w\<lparr>trace := tr3\<rparr>)
                        | Inr rendered \<Rightarrow>
                            Some (Inr (),
                                  w\<lparr>files := (files w)(readme \<mapsto> rendered),
                                    trace := tr3 @ [WriteFile readme rendered,
                                                    Print (updated_message P readme template)]\<rparr>)))))"

definition main :: "platform \<Rightarrow> cli_args \<Rightarrow> world \<Rightarrow> ((py_error + unit) \<times> world) option" where
  "main P args w =
     (case token_of w of
        None \<Rightarrow> Some (Inl (SystemExit missing_token_message), w)
      | Some token \<Rightarrow>
          if token = [] then Some (Inl (SystemExit missing_token_message), w)
          else (case login_of args w of
                  None \<Rightarrow> Some (Inl (SystemExit missing_login_message), w)
                | Some login \<Rightarrow>
                    if login = [] then Some (Inl (SystemExit missing_login_message), w)
                    else generate P token login (template_of args) (readme_of args) w))"

text \<open>
  The status the interpreter exits with: 0 when \<open>main\<close> returns; 1 for
  \<^verbatim>\<open>SystemExit\<close> with a message (which is printed on the error stream) and for any
  other exception that nothing catches.
\<close>

fun exit_status :: "py_error + unit \<Rightarrow> nat" where
  "exit_status (Inr u) = 0"
| "exit_status (Inl (SystemExit msg)) = 1"
| "exit_status (Inl e) = 1"

section \<open>Vocabulary of the properties\<close>

definition is_net :: "event \<Rightarrow> bool" where
  "is_net e \<longleftrightarrow> (case e of Net r \<Rightarrow> True | _ \<Rightarrow> False)"

definition is_write :: "event \<Rightarrow> bool" where
  "is_write e \<longleftrightarrow> (case e of WriteFile p c \<Rightarrow> True | _ \<Rightarrow> False)"

text \<open>Midnight of January 1st of a year, the value \<open>year_start\<close> returns in range.\<close>

definition jan1 :: "nat \<Rightarrow> datetime" where
  "jan1 y = \<lparr>year = y, month = 1, day = 1, hour = 0, minute = 0, second = 0, microsecond = 0\<rparr>"

text \<open>The earlier of two times.\<close>

definition dt_min :: "datetime \<Rightarrow> datetime \<Rightarrow> datetime" where
  "dt_min a b = (if dt_less b a then b else a)"



text \<open>
  The request the loop sends for a window, and the count the remote end gives for it
  when asked after the trace \<open>tr\<close>.
\<close>

definition window_request :: "pystr \<Rightarrow> pystr \<Rightarrow> datetime \<times> datetime \<Rightarrow> event" where
  "window_request client login w =
     Net \<lparr>req_token = client, req_query = ContributionsQuery,
          req_variables = contributions_variables login (fst w) (snd w)\<rparr>"

definition window_count ::
  "platform \<Rightarrow> pystr \<Rightarrow> pystr \<Rightarrow> event list \<Rightarrow> datetime \<times> datetime \<Rightarrow> py_error + int" where
  "window_count P client login tr w =
     (case execute P client ContributionsQuery
             (contributions_variables login (fst w) (snd w)) tr of
        (Inl e, tr') \<Rightarrow> Inl e
      | (Inr data, tr') \<Rightarrow> add_contributions 0 data)"


text \<open>
  The age of the account in whole years, as the words say: the difference of the
  years, less one when the anniversary of this year is still to come.
\<close>

definition age_in_whole_years :: "datetime \<Rightarrow> datetime \<Rightarrow> nat" where
  "age_in_whole_years created now =
     (if dt_less now created then 0
      else if (month now, day now, hour now, minute now, second now, microsecond now)
              < (month created, day created, hour created, minute created, second created,
                 microsecond created)
           then year now - year created - 1
           else year now - year created)"

text \<open>
  The variant of the commit loop: the calendar years from the window start to the year
  of \<open>now\<close>, both counted, while the start is before \<open>now\<close>.
\<close>

definition remaining_years :: "datetime \<Rightarrow> datetime \<Rightarrow> nat" where
  "remaining_years now period_start =
     (if dt_less period_start now then year now + 1 - year period_start else 0)"

section \<open>A sample remote end\<close>

text \<open>
  A remote end to run the script against: it rejects the token \<open>expired\<close>, answers
  the token \<open>limited\<close> with an error payload, knows no user \<open>ghost\<close>, serves one page
  of two repositories, and counts as many commits in a window as there were actions
  before the request.
\<close>

definition sample_created :: datetime where
  "sample_created =
     \<lparr>year = 2023, month = 6, day = 15, hour = 10, minute = 0, second = 0, microsecond = 0\<rparr>"

definition sample_now :: datetime where
  "sample_now =
     \<lparr>year = 2024, month = 3, day = 1, hour = 12, minute = 30, second = 45,
      microsecond = 500000\<rparr>"

definition sample_network :: "event list \<Rightarrow> request \<Rightarrow> http_outcome" where
  "sample_network tr req =
     (if req_token req = ascii ''expired'' then HTTPError 401 (ascii ''Bad credentials'')
      else if req_token req = ascii ''limited''
      then Body (JObj [(ascii ''errors'', JStr (ascii ''rate limited''))])
      else (case req_query req of
        CreatedAtQuery \<Rightarrow>
          if map_of (req_variables req) (ascii ''login'') = Some (JStr (ascii ''ghost''))
          then Body (JObj [(ascii ''data'', JObj [(ascii ''user'', JNull)])])
          else Body (JObj [(ascii ''data'', JObj [(ascii ''user'',
                 JObj [(ascii ''createdAt'', JStr (ascii ''2023-06-15T10:00:00Z''))])])])
      | ContributionsQuery \<Rightarrow>
          Body (JObj [(ascii ''data'', JObj [(ascii ''user'',
            JObj [(ascii ''contributionsCollection'',
              JObj [(ascii ''totalCommitContributions'', JInt (int (length tr)))])])])])
      | StarsQuery \<Rightarrow>
          Body (JObj [(ascii ''data'', JObj [(ascii ''user'',
            JObj [(ascii ''repositories'',
              JObj [(ascii ''nodes'',
                     JList [JObj [(ascii ''stargazerCount'', JInt 2)],
                            JObj [(ascii ''stargazerCount'', JInt 1)]]),
                    (ascii ''pageInfo'',
                     JObj [(ascii ''hasNextPage'', JBool False),
                           (ascii ''endCursor'', JNull)])])])])])))"

definition sample_platform :: platform where
  "sample_platform =
     \<lparr>network = sample_network,
      clock = (\<lambda>tr. sample_now),
      json_str = (\<lambda>j. case j of JStr s \<Rightarrow> s | _ \<Rightarrow> []),
      fromisoformat = (\<lambda>s. if s = ascii ''2023-06-15T10:00:00+00:00''
                            then Inr sample_created else Inl ValueError),
      path_str = (\<lambda>p. p)\<rparr>"

definition sample_args :: cli_args where
  "sample_args = \<lparr>arg_template = None, arg_readme = None, arg_login = None\<rparr>"

definition sample_world :: "pystr \<Rightarrow> world" where
  "sample_world token =
     \<lparr>environ = [ascii ''GITHUB_TOKEN'' \<mapsto> token,
                 ascii ''GITHUB_REPOSITORY_OWNER'' \<mapsto> ascii ''octo''],
      files = [ascii ''TEMPLATE.md'' \<mapsto> ascii ''Stars {{ STARS }} / commits {{COMMITS}}''],
      trace = []\<rparr>"

section \<open>Properties of the matcher\<close>


lemma token_char_not_space: "is_token_char c \<Longrightarrow> \<not> is_space c"
  by (auto simp: is_token_char_def is_space_def)

lemma brace_classes:
  "\<not> is_space lbrace" "\<not> is_space rbrace" "\<not> is_token_char lbrace" "\<not> is_token_char rbrace"
  "lbrace \<noteq> rbrace"
  by (simp_all add: is_space_def is_token_char_def lbrace_def rbrace_def)

lemma takeWhile_stop:
  "list_all P xs \<Longrightarrow> (ys = [] \<or> \<not> P (hd ys)) \<Longrightarrow> takeWhile P (xs @ ys) = xs"
  by (induction xs) (auto simp: takeWhile_eq_Nil_iff)

lemma dropWhile_stop:
  "list_all P xs \<Longrightarrow> (ys = [] \<or> \<not> P (hd ys)) \<Longrightarrow> dropWhile P (xs @ ys) = ys"
  by (induction xs) (auto simp: dropWhile_eq_self_iff)

lemma placeholder_match_sound:
  assumes "placeholder_match s = Some (g0, tok, rest)"
  shows "is_placeholder g0 tok \<and> s = g0 @ rest"
proof -
  let ?r0 = "drop 2 s"
  let ?r1 = "dropWhile is_space ?r0"
  let ?r2 = "dropWhile is_token_char ?r1"
  let ?r3 = "dropWhile is_space ?r2"
  from assms have t: "take 2 s = [lbrace, lbrace]"
    and tok: "tok = takeWhile is_token_char ?r1" "tok \<noteq> []"
    and t3: "take 2 ?r3 = [rbrace, rbrace]"
    and g0: "g0 = [lbrace, lbrace] @ takeWhile is_space ?r0 @ tok @ takeWhile is_space ?r2 @ [rbrace, rbrace]"
    and rest: "rest = drop 2 ?r3"
    by (auto simp: placeholder_match_def Let_def split: if_splits)
  have "is_placeholder g0 tok"
    unfolding is_placeholder_def
    apply (rule exI [of _ "takeWhile is_space ?r0"])
    apply (rule exI [of _ "takeWhile is_space ?r2"])
    using tok g0 by (auto simp: list_all_iff dest: set_takeWhileD)
  moreover have "s = take 2 s @ ?r0" by simp
  moreover have "?r0 = takeWhile is_space ?r0 @ ?r1" by simp
  moreover have "?r1 = tok @ ?r2" using tok by simp
  moreover have "?r2 = takeWhile is_space ?r2 @ ?r3" by simp
  moreover have "?r3 = take 2 ?r3 @ rest" using rest by simp
  ultimately show ?thesis using t t3 g0 by (metis append.assoc)
qed

lemma placeholder_match_complete:
  assumes "is_placeholder p tok"
  shows "placeholder_match (p @ rest) = Some (p, tok, rest)"
proof -
  from assms obtain ws1 ws2 where
    p: "p = [lbrace, lbrace] @ ws1 @ tok @ ws2 @ [rbrace, rbrace]"
    and w1: "list_all is_space ws1" and tk: "tok \<noteq> []" "list_all is_token_char tok"
    and w2: "list_all is_space ws2"
    unfolding is_placeholder_def by blast
  have hd_tok: "\<not> is_space (hd tok)"
    using tk by (cases tok) (auto simp: token_char_not_space)
  let ?s3 = "[rbrace, rbrace] @ rest"
  let ?s2 = "ws2 @ ?s3"
  let ?s1 = "tok @ ?s2"
  let ?s0 = "ws1 @ ?s1"
  have a: "takeWhile is_space ?s0 = ws1" "dropWhile is_space ?s0 = ?s1"
    using w1 hd_tok tk by (auto intro!: takeWhile_stop dropWhile_stop)
  have nt: "?s2 = [] \<or> \<not> is_token_char (hd ?s2)"
    using w2 by (cases ws2) (auto simp: brace_classes dest: token_char_not_space)
  have b: "takeWhile is_token_char ?s1 = tok" "dropWhile is_token_char ?s1 = ?s2"
    using tk nt by (auto intro!: takeWhile_stop dropWhile_stop)
  have c: "takeWhile is_space ?s2 = ws2" "dropWhile is_space ?s2 = ?s3"
    using w2 by (auto intro!: takeWhile_stop dropWhile_stop simp: brace_classes)
  have e: "p @ rest = [lbrace, lbrace] @ ?s0" using p by simp
  show ?thesis
    unfolding placeholder_match_def e
    using a b c tk p by (simp add: Let_def)
qed


lemma placeholder_shape:
  assumes "is_placeholder p tok"
  shows "\<exists>q. p = lbrace # lbrace # q \<and> lbrace \<notin> set q \<and> q \<noteq> []"
proof -
  from assms obtain ws1 ws2 where
    p: "p = [lbrace, lbrace] @ ws1 @ tok @ ws2 @ [rbrace, rbrace]"
    and w1: "list_all is_space ws1" and tk: "list_all is_token_char tok"
    and w2: "list_all is_space ws2"
    unfolding is_placeholder_def by blast
  have "lbrace \<notin> set (ws1 @ tok @ ws2 @ [rbrace, rbrace])"
    using w1 tk w2 brace_classes by (auto simp: list_all_iff)
  with p show ?thesis by auto
qed

lemma placeholder_match_append_None:
  assumes none: "placeholder_match x = None" and x: "x \<noteq> []"
    and p: "is_placeholder p tok"
  shows "placeholder_match (x @ p @ b) = None"
proof (rule ccontr)
  assume "placeholder_match (x @ p @ b) \<noteq> None"
  then obtain g0 t r where m: "placeholder_match (x @ p @ b) = Some (g0, t, r)"
    by (cases "placeholder_match (x @ p @ b)") auto
  from placeholder_match_sound [OF m]
  have g: "is_placeholder g0 t" and eq: "x @ p @ b = g0 @ r" by simp_all
  from placeholder_shape [OF g] obtain q where
    q: "g0 = lbrace # lbrace # q" "lbrace \<notin> set q" "q \<noteq> []" by blast
  from placeholder_shape [OF p] obtain q' where
    q': "p = lbrace # lbrace # q'" by blast
  show False
  proof (cases "length g0 \<le> length x")
    case True
    with eq obtain x' where "x = g0 @ x'"
      by (metis append_eq_append_conv_if append_take_drop_id)
    with placeholder_match_complete [OF g, of x'] none show False by simp
  next
    case False
    then have len: "length x < length g0" by simp
    from eq have "g0 = take (length g0) (x @ p @ b)" by (metis append_eq_conv_conj)
    with len have g0x: "g0 = x @ take (length g0 - length x) (p @ b)" by simp
    from len have pos: "0 < length g0 - length x" by simp
    from q' pos have "take (length g0 - length x) (p @ b) = lbrace # take (length g0 - length x - 1) (lbrace # q' @ b)"
      by (cases "length g0 - length x") simp_all
    with g0x obtain y where g0y: "g0 = x @ lbrace # y" and
      y: "y = take (length g0 - length x - 1) (lbrace # q' @ b)" by metis
    from x obtain c x' where xc: "x = c # x'" by (cases x) auto
    show False
    proof (cases x')
      case Nil
      with g0y xc q have "y = q" by simp
      with q(3) y have "lbrace \<in> set y" by (cases "length g0 - length x - 1") auto
      with \<open>y = q\<close> q(2) show False by simp
    next
      case (Cons d x'')
      with g0y xc q have "q = x'' @ lbrace # y" by simp
      with q(2) show False by simp
    qed
  qed
qed

lemma strip_token: "list_all is_token_char tok \<Longrightarrow> strip tok = tok"
proof -
  assume a: "list_all is_token_char tok"
  have d: "dropWhile is_space xs = xs" if "list_all is_token_char xs" for xs
    using that by (cases xs) (auto dest: token_char_not_space)
  from a have "list_all is_token_char (rev tok)" by (simp add: list_all_iff)
  with a show ?thesis by (simp add: strip_def d)
qed

lemma substitute_total: "\<exists>v. substitute m g0 g1 = Inr v"
  by (auto simp: substitute_def subscript_dict_def Let_def split: option.splits)

lemma substitute_placeholder:
  "is_placeholder p tok \<Longrightarrow>
   substitute m p tok = Inr (case m tok of None \<Rightarrow> p | Some v \<Rightarrow> py_str v)"
  by (auto simp: substitute_def subscript_dict_def Let_def strip_token is_placeholder_def
           split: option.splits)

lemma pattern_sub_total: "\<exists>out. pattern_sub m s = Inr out"
proof (induction m s rule: pattern_sub.induct)
  case (1 m)
  show ?case by simp
next
  case (2 m c cs)
  show ?case
  proof (cases "placeholder_match (c # cs)")
    case None
    with "2.IH"(1) show ?thesis by auto
  next
    case (Some a)
    obtain g0 g1 rest where a: "a = (g0, g1, rest)" by (cases a) auto
    obtain v where v: "substitute m g0 g1 = Inr v" using substitute_total by blast
    from "2.IH"(2) [OF Some a [symmetric] refl v] obtain out where "pattern_sub m rest = Inr out" by blast
    with Some a v show ?thesis by simp
  qed
qed

lemma pattern_sub_occurrence:
  assumes p: "is_placeholder p tok"
  shows "\<exists>ra rb. pattern_sub m a = Inr ra \<and> pattern_sub m b = Inr rb \<and>
           pattern_sub m (a @ p @ b) =
             Inr (ra @ (case m tok of None \<Rightarrow> p | Some v \<Rightarrow> py_str v) @ rb)"
proof (induction m a rule: pattern_sub.induct)
  case (1 m)
  obtain rb where rb: "pattern_sub m b = Inr rb" using pattern_sub_total by blast
  from placeholder_shape [OF p] obtain q where q: "p = lbrace # lbrace # q" by blast
  have "placeholder_match (lbrace # lbrace # q @ b) = Some (p, tok, b)"
    using placeholder_match_complete [OF p, of b] q by simp
  with rb q substitute_placeholder [OF p, of m] show ?case by simp
next
  case (2 m c cs)
  show ?case
  proof (cases "placeholder_match (c # cs)")
    case None
    from placeholder_match_append_None [OF None _ p, of b]
    have n: "placeholder_match (c # cs @ p @ b) = None" by simp
    from "2.IH"(1) [OF None] obtain ra rb where
      "pattern_sub m cs = Inr ra" "pattern_sub m b = Inr rb"
      "pattern_sub m (cs @ p @ b) = Inr (ra @ (case m tok of None \<Rightarrow> p | Some v \<Rightarrow> py_str v) @ rb)"
      by blast
    with None n show ?thesis by simp
  next
    case (Some x)
    obtain g0 g1 rest where x: "x = (g0, g1, rest)" by (cases x) auto
    from placeholder_match_sound [OF Some [unfolded x]]
    have g: "is_placeholder g0 g1" and eq: "c # cs = g0 @ rest" by simp_all
    from placeholder_match_complete [OF g, of "rest @ p @ b"] eq
    have n: "placeholder_match (c # cs @ p @ b) = Some (g0, g1, rest @ p @ b)"
      by (metis append.assoc append_Cons)
    obtain v where v: "substitute m g0 g1 = Inr v" using substitute_total by blast
    from "2.IH"(2) [OF Some x [symmetric] refl v] obtain ra rb where
      "pattern_sub m rest = Inr ra" "pattern_sub m b = Inr rb"
      "pattern_sub m (rest @ p @ b) = Inr (ra @ (case m tok of None \<Rightarrow> p | Some v \<Rightarrow> py_str v) @ rb)"
      by blast
    with Some x n v show ?thesis by simp
  qed
qed


lemma pattern_sub_no_placeholder:
  "\<not> has_placeholder t \<Longrightarrow> pattern_sub m t = Inr t"
proof (induction t)
  case Nil
  show ?case by simp
next
  case (Cons c cs)
  have none: "placeholder_match (c # cs) = None"
  proof (rule ccontr)
    assume "placeholder_match (c # cs) \<noteq> None"
    then obtain g0 g1 rest where "placeholder_match (c # cs) = Some (g0, g1, rest)"
      by (cases "placeholder_match (c # cs)") auto
    from placeholder_match_sound [OF this]
    have "c # cs = [] @ g0 @ rest \<and> is_placeholder g0 g1" by simp
    with Cons.prems show False unfolding has_placeholder_def by blast
  qed
  have "\<not> has_placeholder cs"
  proof
    assume "has_placeholder cs"
    then obtain a p tok b where "cs = a @ p @ b" "is_placeholder p tok"
      unfolding has_placeholder_def by blast
    then have "c # cs = (c # a) @ p @ b \<and> is_placeholder p tok" by simp
    with Cons.prems show False unfolding has_placeholder_def by blast
  qed
  with Cons.IH none show ?case by simp
qed

lemma has_placeholder_iff_search: "has_placeholder t \<longleftrightarrow> pattern_search t"
proof
  assume "has_placeholder t"
  then obtain a p tok b where t: "t = a @ p @ b" and p: "is_placeholder p tok"
    unfolding has_placeholder_def by blast
  from placeholder_shape [OF p] obtain q where q: "p = lbrace # lbrace # q" by blast
  have "pattern_search (a @ p @ b)"
  proof (induction a)
    case Nil
    from placeholder_match_complete [OF p, of b] q show ?case by simp
  next
    case (Cons c a)
    then show ?case by simp
  qed
  with t show "pattern_search t" by simp
next
  assume "pattern_search t"
  then show "has_placeholder t"
  proof (induction t)
    case Nil
    then show ?case by simp
  next
    case (Cons c cs)
    show ?case
    proof (cases "placeholder_match (c # cs)")
      case None
      with Cons obtain a p tok b where "cs = a @ p @ b" "is_placeholder p tok"
        unfolding has_placeholder_def by auto
      then have "c # cs = (c # a) @ p @ b \<and> is_placeholder p tok" by simp
      then show ?thesis unfolding has_placeholder_def by blast
    next
      case (Some x)
      obtain g0 g1 rest where x: "x = (g0, g1, rest)" by (cases x) auto
      from placeholder_match_sound [OF Some [unfolded x]]
      have "c # cs = [] @ g0 @ rest \<and> is_placeholder g0 g1" by simp
      then show ?thesis unfolding has_placeholder_def by blast
    qed
  qed
qed

lemma ascii_simps [simp]: "ascii [] = []" "ascii (c # cs) = of_char c # ascii cs"
  by (simp_all add: ascii_def)


lemmas render_eval =
  render_template_def placeholder_match_def lbrace_def rbrace_def is_space_def
  is_token_char_def substitute_def subscript_dict_def strip_def str_int_def
  str_nat.simps Let_def

lemma is_placeholder_iff_match:
  "is_placeholder p tok \<longleftrightarrow> placeholder_match p = Some (p, tok, [])"
  using placeholder_match_complete [of p tok "[]"] placeholder_match_sound [of p p tok "[]"]
  by auto

section \<open>Properties of the client and the aggregator\<close>

lemma execute_trace:
  "execute P token q vars tr = (r, tr') \<Longrightarrow>
   tr' = tr @ [Net \<lparr>req_token = token, req_query = q, req_variables = vars\<rparr>]"
  by (auto simp: execute_def Let_def split: http_outcome.splits)

lemma fetch_user_created_at_trace:
  "fetch_user_created_at P client login tr = (r, tr') \<Longrightarrow>
   \<exists>e. tr' = tr @ [e] \<and> is_net e"
  by (auto simp: fetch_user_created_at_def is_net_def split: prod.splits sum.splits if_splits
           dest!: execute_trace)





lemma year_start_jan1: "year_start y = Inr b \<Longrightarrow> b = jan1 y \<and> 1 \<le> y \<and> y \<le> MAXYEAR"
  by (auto simp: year_start_def jan1_def split: if_splits)



lemma jan1_after: "dt_less ps (jan1 (year ps + 1))"
  by (simp add: dt_less_def dt_key_def jan1_def less_prod_def)

lemma dt_min_after: "dt_less ps now \<Longrightarrow> dt_less ps (dt_min (jan1 (year ps + 1)) now)"
  using jan1_after by (simp add: dt_min_def)








lemma remaining_years_step:
  assumes "dt_less ps now"
  shows "remaining_years now (dt_min (jan1 (year ps + 1)) now) < remaining_years now ps"
proof -
  from assms have y: "year ps \<le> year now" by (rule dt_less_year)
  show ?thesis
  proof (cases "dt_less now (jan1 (year ps + 1))")
    case True
    with assms y show ?thesis by (simp add: remaining_years_def dt_min_def dt_less_def)
  next
    case False
    then have e: "dt_min (jan1 (year ps + 1)) now = jan1 (year ps + 1)" by (simp add: dt_min_def)
    show ?thesis
    proof (cases "dt_less (jan1 (year ps + 1)) now")
      case True
      from dt_less_year [OF True] have "year ps + 1 \<le> year now" by (simp add: jan1_def)
      with assms True e show ?thesis by (simp add: remaining_years_def jan1_def)
    next
      case False
      with assms y e show ?thesis by (simp add: remaining_years_def)
    qed
  qed
qed

lemma commit_loop_requests:
  "commit_loop P client login now ps tot tr = (r, tr') \<Longrightarrow>
   \<exists>ns. tr' = tr @ ns \<and> list_all is_net ns \<and> length ns \<le> remaining_years now ps"
proof (induction P client login now ps tot tr rule: commit_loop.induct)
  case (1 P client login now ps tot tr)
  show ?case
  proof (cases "dt_less ps now")
    case False
    with "1.prems" have "tr' = tr" by (subst (asm) commit_loop.simps) simp
    then show ?thesis by simp
  next
    case True
    note lt = True
    show ?thesis
    proof (cases "year_start (year ps + 1)")
      case (Inl e)
      with lt "1.prems" have "tr' = tr" by (subst (asm) commit_loop.simps) simp
      then show ?thesis by simp
    next
      case (Inr b)
      from year_start_jan1 [OF Inr] have bj: "b = jan1 (year ps + 1)" by simp
      let ?pe = "dt_min b now"
      have pe: "?pe = (if dt_less now b then now else b)" by (simp add: dt_min_def)
      obtain x tr1 where ex: "execute P client ContributionsQuery
          (contributions_variables login ps ?pe) tr = (x, tr1)" by fastforce
      from execute_trace [OF ex] obtain e where tr1: "tr1 = tr @ [e]" "is_net e"
        by (auto simp: is_net_def)
      from remaining_years_step [OF lt] bj
      have dec: "remaining_years now ?pe < remaining_years now ps" by simp
      have one: "\<exists>ns. tr1 = tr @ ns \<and> list_all is_net ns \<and> length ns \<le> remaining_years now ps"
        using tr1 dec by (intro exI [of _ "[e]"]) simp
      show ?thesis
      proof (cases x)
        case (Inl e')
        with lt Inr ex pe "1.prems" have "tr' = tr1"
          by (subst (asm) commit_loop.simps) (simp add: Let_def)
        with one show ?thesis by simp
      next
        case xr: (Inr data)
        show ?thesis
        proof (cases "add_contributions tot data")
          case (Inl e')
          with lt Inr ex pe xr "1.prems" have "tr' = tr1"
            by (subst (asm) commit_loop.simps) (simp add: Let_def)
          with one show ?thesis by simp
        next
          case ar: (Inr tot1)
          with lt Inr ex pe xr "1.prems"
          have rc: "commit_loop P client login now ?pe tot1 tr1 = (r, tr')"
            by (subst (asm) commit_loop.simps) (simp add: Let_def)
          from "1.IH" [OF lt Inr pe ex [symmetric] xr ar rc]
          obtain ns where ns: "tr' = tr1 @ ns" "list_all is_net ns"
            "length ns \<le> remaining_years now ?pe" by blast
          with tr1 dec have "tr' = tr @ (e # ns) \<and> list_all is_net (e # ns) \<and>
              length (e # ns) \<le> remaining_years now ps" by simp
          then show ?thesis by blast
        qed
      qed
    qed
  qed
qed

lemma age_bound:
  "remaining_years now created \<le> age_in_whole_years created now + 2"
proof (cases "dt_less created now")
  case False
  then show ?thesis by (simp add: remaining_years_def)
next
  case True
  then have n: "\<not> dt_less now created" by (auto simp: dt_less_def)
  from True have y: "year created \<le> year now" by (rule dt_less_year)
  have "year now - year created - 1 \<le> age_in_whole_years created now"
  proof (cases "(month now, day now, hour now, minute now, second now, microsecond now)
              < (month created, day created, hour created, minute created, second created,
                 microsecond created)")
    case True
    with n show ?thesis by (simp only: age_in_whole_years_def if_False if_True)
  next
    case False
    with n have "age_in_whole_years created now = year now - year created"
      by (simp only: age_in_whole_years_def if_False)
    then show ?thesis by simp
  qed
  with y True show ?thesis by (simp add: remaining_years_def)
qed

lemma stars_loop_trace:
  assumes "stars_loop P client login cursor tot tr = Some (r, tr')"
  shows "\<exists>ns. tr' = tr @ ns \<and> list_all is_net ns"
proof -
  have "\<exists>ns. snd (r, tr') = snd (((((P, client), login), cursor), tot), tr) @ ns \<and>
             list_all is_net ns"
  proof (rule stars_loop.raw_induct
      [where Pa = "\<lambda>x y. \<exists>ns. snd y = snd x @ ns \<and> list_all is_net ns", OF _ assms],
      goal_cases)
    case (1 f P client login cursor tot tr y)
    obtain x tr1 where ex: "execute P client StarsQuery
        [(ascii ''login'', JStr login), (ascii ''cursor'', cursor)] tr = (x, tr1)" by fastforce
    from execute_trace [OF ex] obtain e where tr1: "tr1 = tr @ [e]" "is_net e"
      by (auto simp: is_net_def)
    show ?case
    proof (cases "\<exists>data tot1 c. x = Inr data \<and> stars_page data tot = Inr (tot1, Some c)")
      case False
      with 1(2) ex have "snd y = tr1"
        by (auto split: sum.splits prod.splits option.splits)
      with tr1 show ?thesis by (intro exI [of _ "[e]"]) simp
    next
      case True
      then obtain data tot1 c where "x = Inr data" "stars_page data tot = Inr (tot1, Some c)"
        by blast
      with 1(2) ex have "f P client login c tot1 tr1 = Some y" by simp
      from 1(1) [OF this] obtain ns where "snd y = tr1 @ ns" "list_all is_net ns" by auto
      with tr1 have "snd y = tr @ (e # ns) \<and> list_all is_net (e # ns)" by simp
      then show ?thesis by (metis snd_conv)
    qed
  qed
  then show ?thesis by simp
qed

lemma net_not_write: "list_all is_net ns \<Longrightarrow> \<not> list_ex is_write ns"
  by (induction ns) (auto simp: is_net_def is_write_def split: event.splits)

lemma fetch_commit_total_trace:
  assumes "fetch_commit_total P client login tr = (r, tr')"
  shows "\<exists>ns. tr' = tr @ ns \<and> list_all is_net ns"
proof -
  obtain x tr1 where u: "fetch_user_created_at P client login tr = (x, tr1)" by fastforce
  from fetch_user_created_at_trace [OF u] obtain e where e: "tr1 = tr @ [e]" "is_net e" by blast
  show ?thesis
  proof (cases x)
    case (Inl err)
    with assms u have "tr' = tr1" by (simp add: fetch_commit_total_def)
    with e show ?thesis by (intro exI [of _ "[e]"]) simp
  next
    case (Inr created_at)
    with assms u have "commit_loop P client login (clock P tr1) created_at 0 tr1 = (r, tr')"
      by (simp add: fetch_commit_total_def)
    from commit_loop_requests [OF this] obtain ns where "tr' = tr1 @ ns" "list_all is_net ns"
      by blast
    with e have "tr' = tr @ (e # ns) \<and> list_all is_net (e # ns)" by simp
    then show ?thesis by blast
  qed
qed

lemma fetch_total_stars_trace:
  "fetch_total_stars P client login tr = Some (r, tr') \<Longrightarrow>
   \<exists>ns. tr' = tr @ ns \<and> list_all is_net ns"
  unfolding fetch_total_stars_def by (rule stars_loop_trace)

lemma generate_result:
  assumes g: "generate P token login template readme w = Some (r, w')"
  shows "\<exists>new. trace w' = trace w @ new \<and>
     (case r of
        Inl e \<Rightarrow> files w' = files w \<and> \<not> list_ex is_write new
      | Inr u \<Rightarrow> \<exists>stars commits nets1 nets2 template_text rendered.
          list_all is_net nets1 \<and> list_all is_net nets2 \<and>
          fetch_total_stars P token login (trace w @ [Print (fetching_message login)]) =
            Some (Inr stars, trace w @ [Print (fetching_message login)] @ nets1) \<and>
          fetch_commit_total P token login (trace w @ [Print (fetching_message login)] @ nets1) =
            (Inr commits, trace w @ [Print (fetching_message login)] @ nets1 @ nets2) \<and>
          files w template = Some template_text \<and>
          render_template template_text (stats_mapping stars commits) = Inr rendered \<and>
          new = [Print (fetching_message login)] @ nets1 @ nets2 @
                [Print (stars_message stars), Print (commits_message commits),
                 ReadFile template, WriteFile readme rendered,
                 Print (updated_message P readme template)] \<and>
          files w' = (files w)(readme \<mapsto> rendered))"
proof -
  let ?p = "Print (fetching_message login)"
  let ?tr0 = "trace w @ [?p]"
  from g obtain x tr1 where s: "fetch_total_stars P token login ?tr0 = Some (x, tr1)"
    by (cases "fetch_total_stars P token login ?tr0") (auto simp: generate_def)
  from fetch_total_stars_trace [OF s] obtain nets1 where
    n1: "tr1 = ?tr0 @ nets1" "list_all is_net nets1" by blast
  have w1: "\<not> list_ex is_write ([?p] @ nets1)"
    using net_not_write [OF n1(2)] by (simp add: is_write_def)
  show ?thesis
  proof (cases x)
    case (Inl e)
    with g s have "r = Inl e" "w' = w\<lparr>trace := tr1\<rparr>" by (simp_all add: generate_def)
    with n1 w1 show ?thesis by (intro exI [of _ "[?p] @ nets1"]) simp
  next
    case xs: (Inr stars)
    obtain y tr2 where c: "fetch_commit_total P token login tr1 = (y, tr2)" by fastforce
    from fetch_commit_total_trace [OF c] obtain nets2 where
      n2: "tr2 = tr1 @ nets2" "list_all is_net nets2" by blast
    have w2: "\<not> list_ex is_write ([?p] @ nets1 @ nets2)"
      using net_not_write [OF n1(2)] net_not_write [OF n2(2)] by (simp add: is_write_def)
    show ?thesis
    proof (cases y)
      case (Inl e)
      with g s xs c have "r = Inl e" "w' = w\<lparr>trace := tr2\<rparr>" by (simp_all add: generate_def)
      with n1 n2 w2 show ?thesis by (intro exI [of _ "[?p] @ nets1 @ nets2"]) simp
    next
      case yc: (Inr commits)
      let ?tr3 = "tr2 @ [Print (stars_message stars), Print (commits_message commits),
                         ReadFile template]"
      let ?new3 = "[?p] @ nets1 @ nets2 @ [Print (stars_message stars),
                     Print (commits_message commits), ReadFile template]"
      have t3: "?tr3 = trace w @ ?new3" using n1 n2 by simp
      have w3: "\<not> list_ex is_write ?new3"
        using net_not_write [OF n1(2)] net_not_write [OF n2(2)] by (simp add: is_write_def)
      show ?thesis
      proof (cases "files w template")
        case None
        with g s xs c yc have "r = Inl (FileNotFoundError template)" "w' = w\<lparr>trace := ?tr3\<rparr>"
          by (simp_all add: generate_def Let_def)
        with t3 w3 show ?thesis by (intro exI [of _ ?new3]) simp
      next
        case ft: (Some template_text)
        show ?thesis
        proof (cases "render_template template_text (stats_mapping stars commits)")
          case (Inl e)
          with g s xs c yc ft have "r = Inl e" "w' = w\<lparr>trace := ?tr3\<rparr>"
            by (simp_all add: generate_def Let_def)
          with t3 w3 show ?thesis by (intro exI [of _ ?new3]) simp
        next
          case rr: (Inr rendered)
          let ?new = "[?p] @ nets1 @ nets2 @
                [Print (stars_message stars), Print (commits_message commits),
                 ReadFile template, WriteFile readme rendered,
                 Print (updated_message P readme template)]"
          from g s xs c yc ft rr have r: "r = Inr ()"
            and w': "w' = w\<lparr>files := (files w)(readme \<mapsto> rendered),
                          trace := ?tr3 @ [WriteFile readme rendered,
                                           Print (updated_message P readme template)]\<rparr>"
            by (simp_all add: generate_def Let_def)
          from w' n1 n2 have tw: "trace w' = trace w @ ?new" by simp
          from w' have fw: "files w' = (files w)(readme \<mapsto> rendered)" by simp
          from s xs n1 have s': "fetch_total_stars P token login ?tr0 =
              Some (Inr stars, trace w @ [?p] @ nets1)" by simp
          from c yc n1 n2 have c': "fetch_commit_total P token login (trace w @ [?p] @ nets1) =
              (Inr commits, trace w @ [?p] @ nets1 @ nets2)" by simp
          from r tw fw s' c' ft rr n1(2) n2(2) show ?thesis
            by (intro exI [of _ ?new]) (simp, blast)
        qed
      qed
    qed
  qed
qed

text \<open>The text sent for a time does not depend on its microseconds.\<close>

lemma isoformat_whole_seconds: "isoformat (dt\<lparr>microsecond := 0\<rparr>) = isoformat dt"
  by (simp add: isoformat_def)

section \<open>The sample run\<close>

lemmas sample_eval =
  fetch_commit_total_def fetch_user_created_at_def execute_def sample_platform_def
  sample_network_def parse_created_at_def replace_Z_def Let_def sample_created_def
  sample_now_def dt_less_def dt_le_def dt_key_def less_prod_def less_eq_prod_def
  year_start_def MAXYEAR_def jan1_def dt_min_def contributions_variables_def
  add_contributions_def isoformat_def pad_def str_nat.simps window_request_def
  window_count_def



lemma sample_stars:
  "fetch_total_stars sample_platform (ascii ''t'') (ascii ''octo'') [e] =
   Some (Inr 3,
         [e, Net \<lparr>req_token = ascii ''t'', req_query = StarsQuery,
               req_variables = [(ascii ''login'', JStr (ascii ''octo'')), (ascii ''cursor'', JNull)]\<rparr>])"
  unfolding fetch_total_stars_def
  by (subst stars_loop.simps)
     (simp add: execute_def sample_platform_def sample_network_def stars_page_def)

lemma sample_stars_fail:
  "fetch_total_stars sample_platform (ascii ''expired'') (ascii ''octo'') [e] =
   Some (Inl (RuntimeError (transport_message 401 (ascii ''Bad credentials''))),
         [e, Net \<lparr>req_token = ascii ''expired'', req_query = StarsQuery,
               req_variables = [(ascii ''login'', JStr (ascii ''octo'')), (ascii ''cursor'', JNull)]\<rparr>])"
  unfolding fetch_total_stars_def
  by (subst stars_loop.simps)
     (simp add: execute_def sample_platform_def sample_network_def)

lemma sample_commits:
  "fetch_commit_total sample_platform (ascii ''t'') (ascii ''octo'') [e1, e2] =
     (Inr 7,
      [e1, e2,
       Net \<lparr>req_token = ascii ''t'', req_query = CreatedAtQuery,
            req_variables = [(ascii ''login'', JStr (ascii ''octo''))]\<rparr>,
       window_request (ascii ''t'') (ascii ''octo'') (sample_created, jan1 2024),
       window_request (ascii ''t'') (ascii ''octo'') (jan1 2024, sample_now)])"
  by (simp add: commit_loop.simps sample_eval)

lemma sample_config:
  "token_of (sample_world tok) = (if tok = [] then None else Some tok)"
  "login_of sample_args (sample_world tok) = Some (ascii ''octo'')"
  "template_of sample_args = ascii ''TEMPLATE.md''"
  "readme_of sample_args = ascii ''README.md''"
  "trace (sample_world tok) = []"
  "files (sample_world tok) (ascii ''TEMPLATE.md'') =
     Some (ascii ''Stars {{ STARS }} / commits {{COMMITS}}'')"
  by (simp_all add: token_of_def login_of_def template_of_def readme_of_def py_or_def
      sample_args_def sample_world_def)

lemma sample_render:
  "render_template (ascii ''Stars {{ STARS }} / commits {{COMMITS}}'') (stats_mapping 3 7) =
     Inr (ascii ''Stars 3 / commits 7'')"
  by (simp add: stats_mapping_def render_eval)

lemma sample_main:
  "main sample_platform sample_args (sample_world (ascii ''t'')) =
     Some (Inr (), (sample_world (ascii ''t''))
       \<lparr>files := (files (sample_world (ascii ''t'')))
                   (ascii ''README.md'' \<mapsto> ascii ''Stars 3 / commits 7''),
        trace :=
          [Print (fetching_message (ascii ''octo'')),
           Net \<lparr>req_token = ascii ''t'', req_query = StarsQuery,
                req_variables = [(ascii ''login'', JStr (ascii ''octo'')),
                                 (ascii ''cursor'', JNull)]\<rparr>,
           Net \<lparr>req_token = ascii ''t'', req_query = CreatedAtQuery,
                req_variables = [(ascii ''login'', JStr (ascii ''octo''))]\<rparr>,
           window_request (ascii ''t'') (ascii ''octo'') (sample_created, jan1 2024),
           window_request (ascii ''t'') (ascii ''octo'') (jan1 2024, sample_now),
           Print (stars_message 3), Print (commits_message 7),
           ReadFile (ascii ''TEMPLATE.md''),
           WriteFile (ascii ''README.md'') (ascii ''Stars 3 / commits 7''),
           Print (updated_message sample_platform (ascii ''README.md'') (ascii ''TEMPLATE.md''))]\<rparr>)"
proof -
  have t: "token_of (sample_world (ascii ''t'')) = Some (ascii ''t'')"
    by (simp add: sample_config)
  have ne: "ascii ''t'' \<noteq> []" "ascii ''octo'' \<noteq> []" by simp_all
  show ?thesis
    unfolding main_def generate_def t sample_config(2-6) Let_def
    by (simp add: sample_stars sample_commits sample_render ne del: ascii_simps)
qed

section \<open>Claims about the template renderer\<close>

text \<open>
  Claim C3. The output of \<open>render_template\<close> is the input with every substring that
  matches the placeholder pattern replaced: for every way of writing the template as
  \<open>a @ p @ b\<close> with \<open>p\<close> a match of the pattern with token \<open>tok\<close>, the output is the
  rendering of \<open>a\<close>, then the string form of the mapped value when \<open>tok\<close> is a key of
  the mapping and \<open>p\<close> itself verbatim when it is not, then the rendering of \<open>b\<close>. A
  text with no matching substring is returned as it is. The three examples of the
  specification hold.
\<close>

theorem render_template_spec:
  "(\<forall>a p tok b. is_placeholder p tok \<longrightarrow>
      (\<exists>ra rb. render_template a m = Inr ra \<and> render_template b m = Inr rb \<and>
         render_template (a @ p @ b) m =
           Inr (ra @ (case m tok of None \<Rightarrow> p | Some v \<Rightarrow> py_str v) @ rb))) \<and>
   (\<not> has_placeholder t \<longrightarrow> render_template t m = Inr t) \<and>
   render_template (ascii ''{{ STARS }}'') [ascii ''STARS'' \<mapsto> IntV 42] = Inr (ascii ''42'') \<and>
   render_template (ascii ''{{STARS}}'') [ascii ''STARS'' \<mapsto> IntV 1] = Inr (ascii ''1'') \<and>
   render_template (ascii ''{{ FOO }}'') Map.empty = Inr (ascii ''{{ FOO }}'')"
proof (intro conjI allI impI)
  fix a p tok b
  assume "is_placeholder p tok"
  from pattern_sub_occurrence [OF this, of m a b]
  show "\<exists>ra rb. render_template a m = Inr ra \<and> render_template b m = Inr rb \<and>
         render_template (a @ p @ b) m =
           Inr (ra @ (case m tok of None \<Rightarrow> p | Some v \<Rightarrow> py_str v) @ rb)"
    by (simp add: render_template_def)
next
  assume "\<not> has_placeholder t"
  then show "render_template t m = Inr t"
    by (simp add: render_template_def pattern_sub_no_placeholder)
next
  show "render_template (ascii ''{{ STARS }}'') [ascii ''STARS'' \<mapsto> IntV 42] = Inr (ascii ''42'')"
    by (simp add: render_eval)
next
  show "render_template (ascii ''{{STARS}}'') [ascii ''STARS'' \<mapsto> IntV 1] = Inr (ascii ''1'')"
    by (simp add: render_eval)
next
  show "render_template (ascii ''{{ FOO }}'') Map.empty = Inr (ascii ''{{ FOO }}'')"
    by (simp add: render_eval)
qed

theorem render_template_spec_witness:
  "is_placeholder (ascii ''{{ COMMITS }}'') (ascii ''COMMITS'') \<and>
   render_template (ascii ''a {{ COMMITS }} b'') [ascii ''COMMITS'' \<mapsto> IntV 7] = Inr (ascii ''a 7 b'') \<and>
   \<not> has_placeholder (ascii ''{{ x }}'') \<and>
   render_template (ascii ''{{ x }}'') [ascii ''COMMITS'' \<mapsto> IntV 7] = Inr (ascii ''{{ x }}'')"
proof -
  let ?m = "[ascii ''COMMITS'' \<mapsto> IntV 7]"
  have p: "is_placeholder (ascii ''{{ COMMITS }}'') (ascii ''COMMITS'')"
    by (simp add: is_placeholder_iff_match render_eval)
  have n: "\<not> has_placeholder (ascii ''{{ x }}'')"
    by (simp add: has_placeholder_iff_search render_eval)
  note s = render_template_spec [of ?m "ascii ''{{ x }}''"]
  from s p obtain ra rb where
    "render_template (ascii ''a '') ?m = Inr ra" "render_template (ascii '' b'') ?m = Inr rb"
    "render_template (ascii ''a '' @ ascii ''{{ COMMITS }}'' @ ascii '' b'') ?m =
       Inr (ra @ (case ?m (ascii ''COMMITS'') of None \<Rightarrow> ascii ''{{ COMMITS }}'' | Some v \<Rightarrow> py_str v) @ rb)"
    by blast
  moreover have "render_template (ascii ''a '') ?m = Inr (ascii ''a '')"
    "render_template (ascii '' b'') ?m = Inr (ascii '' b'')"
    by (simp_all add: render_eval)
  ultimately have "render_template (ascii ''a {{ COMMITS }} b'') ?m = Inr (ascii ''a 7 b'')"
    by (simp add: str_int_def str_nat.simps)
  moreover from s n have "render_template (ascii ''{{ x }}'') ?m = Inr (ascii ''{{ x }}'')"
    by blast
  ultimately show ?thesis using p n by blast
qed



text \<open>
  Claim C9. For every mapping and every text with no substring matching the
  placeholder pattern, rendering returns the text unchanged.
\<close>

theorem render_template_identity:
  "\<not> has_placeholder t \<Longrightarrow> render_template t m = Inr t"
  by (simp add: render_template_def pattern_sub_no_placeholder)

theorem render_template_identity_witness:
  "\<not> has_placeholder (ascii ''Hi {{ name }} {X} {{}}'') \<and>
   render_template (ascii ''Hi {{ name }} {X} {{}}'') [ascii ''X'' \<mapsto> IntV 5] =
     Inr (ascii ''Hi {{ name }} {X} {{}}'')"
proof -
  have n: "\<not> has_placeholder (ascii ''Hi {{ name }} {X} {{}}'')"
    by (simp add: has_placeholder_iff_search render_eval)
  from render_template_identity [OF n] n show ?thesis by blast
qed



section \<open>Claims about the client, the aggregator and the entry point\<close>

text \<open>
  Claim C6. When the HTTP layer reports a failure status, \<open>execute\<close> raises an error
  whose message contains the status code and the response body. When the decoded
  response has an \<^verbatim>\<open>errors\<close> entry, it raises an error whose message contains the
  string form of that entry. Otherwise it returns the \<^verbatim>\<open>data\<close> entry. In each case
  exactly one request was sent. (Both errors are \<^verbatim>\<open>RuntimeError\<close> in the script; the
  transport and the API failure differ by their message.)
\<close>

theorem execute_outcomes:
  "(network P tr \<lparr>req_token = token, req_query = q, req_variables = vars\<rparr> = HTTPError code detail \<longrightarrow>
      execute P token q vars tr =
        (Inl (RuntimeError (ascii ''GraphQL request failed ('' @ str_int code @ ascii ''): '' @ detail)),
         tr @ [Net \<lparr>req_token = token, req_query = q, req_variables = vars\<rparr>])) \<and>
   (network P tr \<lparr>req_token = token, req_query = q, req_variables = vars\<rparr> = Body (JObj kvs) \<and>
    map_of kvs (ascii ''errors'') = Some errs \<longrightarrow>
      execute P token q vars tr =
        (Inl (RuntimeError (ascii ''GraphQL API returned errors: '' @ json_str P errs)),
         tr @ [Net \<lparr>req_token = token, req_query = q, req_variables = vars\<rparr>])) \<and>
   (network P tr \<lparr>req_token = token, req_query = q, req_variables = vars\<rparr> = Body (JObj kvs) \<and>
    map_of kvs (ascii ''errors'') = None \<and> map_of kvs (ascii ''data'') = Some d \<longrightarrow>
      execute P token q vars tr =
        (Inr d, tr @ [Net \<lparr>req_token = token, req_query = q, req_variables = vars\<rparr>]))"
  by (simp add: execute_def Let_def transport_message_def api_message_def)

theorem execute_outcomes_witness:
  "execute sample_platform (ascii ''expired'') StarsQuery [] [] =
     (Inl (RuntimeError (ascii ''GraphQL request failed (401): Bad credentials'')),
      [Net \<lparr>req_token = ascii ''expired'', req_query = StarsQuery, req_variables = []\<rparr>]) \<and>
   execute sample_platform (ascii ''limited'') StarsQuery [] [] =
     (Inl (RuntimeError (ascii ''GraphQL API returned errors: rate limited'')),
      [Net \<lparr>req_token = ascii ''limited'', req_query = StarsQuery, req_variables = []\<rparr>]) \<and>
   execute sample_platform (ascii ''t'') CreatedAtQuery [(ascii ''login'', JStr (ascii ''ghost''))] [] =
     (Inr (JObj [(ascii ''user'', JNull)]),
      [Net \<lparr>req_token = ascii ''t'', req_query = CreatedAtQuery,
            req_variables = [(ascii ''login'', JStr (ascii ''ghost''))]\<rparr>])"
proof -
  have 1: "network sample_platform [] \<lparr>req_token = ascii ''expired'', req_query = StarsQuery, req_variables = []\<rparr>
           = HTTPError 401 (ascii ''Bad credentials'')"
    by (simp add: sample_platform_def sample_network_def)
  have 2: "network sample_platform [] \<lparr>req_token = ascii ''limited'', req_query = StarsQuery, req_variables = []\<rparr>
           = Body (JObj [(ascii ''errors'', JStr (ascii ''rate limited''))]) \<and>
           map_of [(ascii ''errors'', JStr (ascii ''rate limited''))] (ascii ''errors'') = Some (JStr (ascii ''rate limited''))"
    by (simp add: sample_platform_def sample_network_def)
  have 3: "network sample_platform [] \<lparr>req_token = ascii ''t'', req_query = CreatedAtQuery,
             req_variables = [(ascii ''login'', JStr (ascii ''ghost''))]\<rparr>
           = Body (JObj [(ascii ''data'', JObj [(ascii ''user'', JNull)])]) \<and>
           map_of [(ascii ''data'', JObj [(ascii ''user'', JNull)])] (ascii ''errors'') = None \<and>
           map_of [(ascii ''data'', JObj [(ascii ''user'', JNull)])] (ascii ''data'') = Some (JObj [(ascii ''user'', JNull)])"
    by (simp add: sample_platform_def sample_network_def)
  have s: "str_int 401 = ascii ''401''" by (simp add: str_int_def str_nat.simps)
  have j: "json_str sample_platform (JStr (ascii ''rate limited'')) = ascii ''rate limited''"
    by (simp add: sample_platform_def)
  from execute_outcomes [of sample_platform "[]" "ascii ''expired''" StarsQuery "[]" 401 "ascii ''Bad credentials''"] 1
  have a: "execute sample_platform (ascii ''expired'') StarsQuery [] [] =
     (Inl (RuntimeError (ascii ''GraphQL request failed ('' @ str_int 401 @ ascii ''): '' @ ascii ''Bad credentials'')),
      [] @ [Net \<lparr>req_token = ascii ''expired'', req_query = StarsQuery, req_variables = []\<rparr>])"
    by blast
  from execute_outcomes [of sample_platform "[]" "ascii ''limited''" StarsQuery "[]" _ _
         "[(ascii ''errors'', JStr (ascii ''rate limited''))]" "JStr (ascii ''rate limited'')"] 2
  have b: "execute sample_platform (ascii ''limited'') StarsQuery [] [] =
     (Inl (RuntimeError (ascii ''GraphQL API returned errors: '' @ json_str sample_platform (JStr (ascii ''rate limited'')))),
      [] @ [Net \<lparr>req_token = ascii ''limited'', req_query = StarsQuery, req_variables = []\<rparr>])"
    by blast
  from execute_outcomes [of sample_platform "[]" "ascii ''t''" CreatedAtQuery "[(ascii ''login'', JStr (ascii ''ghost''))]" _ _
         "[(ascii ''data'', JObj [(ascii ''user'', JNull)])]" _ "JObj [(ascii ''user'', JNull)]"] 3
  have c: "execute sample_platform (ascii ''t'') CreatedAtQuery [(ascii ''login'', JStr (ascii ''ghost''))] [] =
     (Inr (JObj [(ascii ''user'', JNull)]),
      [] @ [Net \<lparr>req_token = ascii ''t'', req_query = CreatedAtQuery,
            req_variables = [(ascii ''login'', JStr (ascii ''ghost''))]\<rparr>])"
    by blast
  from a b c show ?thesis unfolding s j by simp
qed


text \<open>
  Claim C5. When both token variables are unset or empty, \<open>main\<close> ends with
  \<^verbatim>\<open>SystemExit\<close> and the message about the missing token; when there is a token and
  the login is absent or empty, with the message about the login. In both cases the
  world is returned as it was: nothing was sent, printed, read or written, and the exit
  status is not zero.
\<close>

theorem missing_configuration:
  "(falsy (environ w (ascii ''GITHUB_TOKEN'')) \<and> falsy (environ w (ascii ''TOKEN'')) \<longrightarrow>
      main P args w = Some (Inl (SystemExit missing_token_message), w)) \<and>
   (\<not> falsy (token_of w) \<and> falsy (login_of args w) \<longrightarrow>
      main P args w = Some (Inl (SystemExit missing_login_message), w)) \<and>
   (falsy (token_of w) \<or> falsy (login_of args w) \<longrightarrow>
      (\<exists>msg w'. main P args w = Some (Inl (SystemExit msg), w') \<and>
             trace w' = trace w \<and> files w' = files w \<and>
             exit_status (Inl (SystemExit msg)) \<noteq> 0))"
  by (auto simp: main_def falsy_def token_of_def py_or_def split: option.splits)

theorem missing_configuration_witness:
  "main sample_platform \<lparr>arg_template = None, arg_readme = None, arg_login = None\<rparr>
        \<lparr>environ = Map.empty, files = Map.empty, trace = []\<rparr> =
     Some (Inl (SystemExit missing_token_message), \<lparr>environ = Map.empty, files = Map.empty, trace = []\<rparr>) \<and>
   main sample_platform \<lparr>arg_template = None, arg_readme = None, arg_login = None\<rparr>
        \<lparr>environ = [ascii ''TOKEN'' \<mapsto> ascii ''t''], files = Map.empty, trace = []\<rparr> =
     Some (Inl (SystemExit missing_login_message),
           \<lparr>environ = [ascii ''TOKEN'' \<mapsto> ascii ''t''], files = Map.empty, trace = []\<rparr>)"
proof -
  let ?a = "\<lparr>arg_template = None, arg_readme = None, arg_login = None\<rparr>"
  let ?w1 = "\<lparr>environ = Map.empty, files = Map.empty, trace = []\<rparr>"
  let ?w2 = "\<lparr>environ = [ascii ''TOKEN'' \<mapsto> ascii ''t''], files = Map.empty, trace = []\<rparr>"
  have 1: "falsy (environ ?w1 (ascii ''GITHUB_TOKEN'')) \<and> falsy (environ ?w1 (ascii ''TOKEN''))"
    by (simp add: falsy_def)
  have 2: "\<not> falsy (token_of ?w2) \<and> falsy (login_of ?a ?w2)"
    by (simp add: falsy_def token_of_def login_of_def py_or_def)
  from missing_configuration [of ?w1 sample_platform ?a] 1
  have a: "main sample_platform ?a ?w1 = Some (Inl (SystemExit missing_token_message), ?w1)"
    by blast
  from missing_configuration [of ?w2 sample_platform ?a] 2
  have b: "main sample_platform ?a ?w2 = Some (Inl (SystemExit missing_login_message), ?w2)"
    by blast
  from a b show ?thesis by blast
qed



text \<open>
  Claim C4, amended. For every creation time, current time, total and trace the commit
  loop returns (the function is total), having sent only requests, one per iteration.
  When the creation time is not before \<open>now\<close> it sends none and returns the total
  unchanged. Otherwise the number of requests is at most the number of calendar years
  from the creation year to the year of \<open>now\<close>, both counted, which is at most the age
  in whole years plus two; an iteration moves the window start strictly forward and
  strictly decreases the variant \<open>remaining_years\<close>.
\<close>

theorem commit_loop_bounded:
  "\<exists>r ns. commit_loop P client login now created tot tr = (r, tr @ ns) \<and>
      list_all is_net ns \<and>
      (if dt_less created now
       then length ns + year created \<le> year now + 1 \<and>
            length ns \<le> age_in_whole_years created now + 2 \<and>
            dt_less created (dt_min (jan1 (year created + 1)) now) \<and>
            remaining_years now (dt_min (jan1 (year created + 1)) now) < remaining_years now created
       else ns = [] \<and> r = Inr tot)"
proof -
  obtain r tr' where c: "commit_loop P client login now created tot tr = (r, tr')" by fastforce
  from commit_loop_requests [OF c] obtain ns where
    ns: "tr' = tr @ ns" "list_all is_net ns" "length ns \<le> remaining_years now created" by blast
  show ?thesis
  proof (cases "dt_less created now")
    case True
    then have "year created \<le> year now" by (rule dt_less_year)
    with ns(3) True have 1: "length ns + year created \<le> year now + 1"
      by (simp add: remaining_years_def)
    from ns(3) age_bound [of now created]
    have 2: "length ns \<le> age_in_whole_years created now + 2" by simp
    from c ns 1 2 True dt_min_after [OF True] remaining_years_step [OF True]
    show ?thesis by auto
  next
    case False
    with c have "r = Inr tot" "tr' = tr" by (subst (asm) commit_loop.simps, simp)+
    with c False show ?thesis by auto
  qed
qed

theorem commit_loop_bounded_witness:
  "dt_less sample_created sample_now \<and>
   (\<exists>r ns. commit_loop sample_platform (ascii ''t'') (ascii ''octo'') sample_now sample_created 0 []
              = (r, ns) \<and>
      length ns = 2 \<and> length ns + year sample_created \<le> year sample_now + 1 \<and>
      length ns \<le> age_in_whole_years sample_created sample_now + 2)"
proof -
  have l: "dt_less sample_created sample_now"
    by (simp add: sample_created_def sample_now_def dt_less_def dt_key_def less_prod_def)
  have e: "commit_loop sample_platform (ascii ''t'') (ascii ''octo'') sample_now sample_created 0 [] =
     (Inr 1,
      [window_request (ascii ''t'') (ascii ''octo'') (sample_created, jan1 2024),
       window_request (ascii ''t'') (ascii ''octo'') (jan1 2024, sample_now)])"
    by (simp add: commit_loop.simps sample_eval)
  from commit_loop_bounded [of sample_platform "ascii ''t''" "ascii ''octo''" sample_now
      sample_created 0 "[]"] l
  obtain r ns where
    c: "commit_loop sample_platform (ascii ''t'') (ascii ''octo'') sample_now sample_created 0 []
          = (r, [] @ ns)"
    and b: "length ns + year sample_created \<le> year sample_now + 1"
      "length ns \<le> age_in_whole_years sample_created sample_now + 2"
    by (auto split: if_splits)
  from c e have "length ns = 2" by simp
  with c b l show ?thesis by auto
qed

text \<open>
  Claim C4 as stated fails: the sample account, created on 2023-06-15 and read on
  2024-03-01, is less than one year old, and the loop runs twice.
\<close>

theorem commit_loop_age_counterexample:
  "\<not> length (snd (commit_loop sample_platform (ascii ''t'') (ascii ''octo'')
                    sample_now sample_created 0 [])) \<le>
     age_in_whole_years sample_created sample_now"
proof -
  have "commit_loop sample_platform (ascii ''t'') (ascii ''octo'') sample_now sample_created 0 [] =
     (Inr 1,
      [window_request (ascii ''t'') (ascii ''octo'') (sample_created, jan1 2024),
       window_request (ascii ''t'') (ascii ''octo'') (jan1 2024, sample_now)])"
    by (simp add: commit_loop.simps sample_eval)
  moreover have "age_in_whole_years sample_created sample_now = 0"
    by (simp add: age_in_whole_years_def sample_created_def sample_now_def dt_less_def
        dt_key_def less_prod_def)
  ultimately show ?thesis by simp
qed

text \<open>
  Claim C2. A failure of either fetch ends the run with that failure. Whenever the run
  ends with an error, the files are as they were and nothing was written. Whenever it
  ends without one, it did, in this order and each once: announce, fetch the stars,
  fetch the commits, print both, read the template, render it with the two numbers
  fetched, write the result to the destination, and report; the destination is the
  only file changed. (A run whose star loop never ends returns nothing and writes
  nothing: the write comes after the loop.)
\<close>

theorem main_all_or_nothing:
  "(\<forall>token login e tr1.
      token_of w = Some token \<and> token \<noteq> [] \<and> login_of args w = Some login \<and> login \<noteq> [] \<and>
      fetch_total_stars P token login (trace w @ [Print (fetching_message login)]) =
        Some (Inl e, tr1)
      \<longrightarrow> main P args w = Some (Inl e, w\<lparr>trace := tr1\<rparr>)) \<and>
   (\<forall>token login stars tr1 e tr2.
      token_of w = Some token \<and> token \<noteq> [] \<and> login_of args w = Some login \<and> login \<noteq> [] \<and>
      fetch_total_stars P token login (trace w @ [Print (fetching_message login)]) =
        Some (Inr stars, tr1) \<and>
      fetch_commit_total P token login tr1 = (Inl e, tr2)
      \<longrightarrow> main P args w = Some (Inl e, w\<lparr>trace := tr2\<rparr>)) \<and>
   (\<forall>r w'. main P args w = Some (r, w') \<longrightarrow>
      (\<exists>new. trace w' = trace w @ new \<and>
         (case r of
            Inl e \<Rightarrow> files w' = files w \<and> \<not> list_ex is_write new
          | Inr u \<Rightarrow> \<exists>token login stars commits nets1 nets2 template_text rendered.
              token_of w = Some token \<and> login_of args w = Some login \<and>
              list_all is_net nets1 \<and> list_all is_net nets2 \<and>
              fetch_total_stars P token login (trace w @ [Print (fetching_message login)]) =
                Some (Inr stars, trace w @ [Print (fetching_message login)] @ nets1) \<and>
              fetch_commit_total P token login
                  (trace w @ [Print (fetching_message login)] @ nets1) =
                (Inr commits, trace w @ [Print (fetching_message login)] @ nets1 @ nets2) \<and>
              files w (template_of args) = Some template_text \<and>
              render_template template_text (stats_mapping stars commits) = Inr rendered \<and>
              new = [Print (fetching_message login)] @ nets1 @ nets2 @
                    [Print (stars_message stars), Print (commits_message commits),
                     ReadFile (template_of args), WriteFile (readme_of args) rendered,
                     Print (updated_message P (readme_of args) (template_of args))] \<and>
              files w' = (files w)(readme_of args \<mapsto> rendered))))"
proof (intro conjI allI impI)
  fix token login e tr1
  assume "token_of w = Some token \<and> token \<noteq> [] \<and> login_of args w = Some login \<and> login \<noteq> [] \<and>
      fetch_total_stars P token login (trace w @ [Print (fetching_message login)]) =
        Some (Inl e, tr1)"
  then show "main P args w = Some (Inl e, w\<lparr>trace := tr1\<rparr>)"
    by (simp add: main_def generate_def)
next
  fix token login stars tr1 e tr2
  assume "token_of w = Some token \<and> token \<noteq> [] \<and> login_of args w = Some login \<and> login \<noteq> [] \<and>
      fetch_total_stars P token login (trace w @ [Print (fetching_message login)]) =
        Some (Inr stars, tr1) \<and>
      fetch_commit_total P token login tr1 = (Inl e, tr2)"
  then show "main P args w = Some (Inl e, w\<lparr>trace := tr2\<rparr>)"
    by (simp add: main_def generate_def)
next
  fix r w'
  assume m: "main P args w = Some (r, w')"
  let ?goal = "\<exists>new. trace w' = trace w @ new \<and>
         (case r of
            Inl e \<Rightarrow> files w' = files w \<and> \<not> list_ex is_write new
          | Inr u \<Rightarrow> \<exists>token login stars commits nets1 nets2 template_text rendered.
              token_of w = Some token \<and> login_of args w = Some login \<and>
              list_all is_net nets1 \<and> list_all is_net nets2 \<and>
              fetch_total_stars P token login (trace w @ [Print (fetching_message login)]) =
                Some (Inr stars, trace w @ [Print (fetching_message login)] @ nets1) \<and>
              fetch_commit_total P token login
                  (trace w @ [Print (fetching_message login)] @ nets1) =
                (Inr commits, trace w @ [Print (fetching_message login)] @ nets1 @ nets2) \<and>
              files w (template_of args) = Some template_text \<and>
              render_template template_text (stats_mapping stars commits) = Inr rendered \<and>
              new = [Print (fetching_message login)] @ nets1 @ nets2 @
                    [Print (stars_message stars), Print (commits_message commits),
                     ReadFile (template_of args), WriteFile (readme_of args) rendered,
                     Print (updated_message P (readme_of args) (template_of args))] \<and>
              files w' = (files w)(readme_of args \<mapsto> rendered))"
  show ?goal
  proof (cases "\<exists>token login. token_of w = Some token \<and> token \<noteq> [] \<and>
                  login_of args w = Some login \<and> login \<noteq> []")
    case False
    with m have "\<exists>msg. r = Inl (SystemExit msg)" "w' = w"
      by (auto simp: main_def split: option.splits if_splits)
    then show ?thesis by (intro exI [of _ "[]"]) auto
  next
    case True
    then obtain token login where c: "token_of w = Some token" "token \<noteq> []"
      "login_of args w = Some login" "login \<noteq> []" by blast
    with m have g: "generate P token login (template_of args) (readme_of args) w = Some (r, w')"
      by (simp add: main_def)
    from generate_result [OF g] obtain new where
      n: "trace w' = trace w @ new"
      and k: "case r of
        Inl e \<Rightarrow> files w' = files w \<and> \<not> list_ex is_write new
      | Inr u \<Rightarrow> \<exists>stars commits nets1 nets2 template_text rendered.
          list_all is_net nets1 \<and> list_all is_net nets2 \<and>
          fetch_total_stars P token login (trace w @ [Print (fetching_message login)]) =
            Some (Inr stars, trace w @ [Print (fetching_message login)] @ nets1) \<and>
          fetch_commit_total P token login (trace w @ [Print (fetching_message login)] @ nets1) =
            (Inr commits, trace w @ [Print (fetching_message login)] @ nets1 @ nets2) \<and>
          files w (template_of args) = Some template_text \<and>
          render_template template_text (stats_mapping stars commits) = Inr rendered \<and>
          new = [Print (fetching_message login)] @ nets1 @ nets2 @
                [Print (stars_message stars), Print (commits_message commits),
                 ReadFile (template_of args), WriteFile (readme_of args) rendered,
                 Print (updated_message P (readme_of args) (template_of args))] \<and>
          files w' = (files w)(readme_of args \<mapsto> rendered)"
      by blast
    show ?thesis
    proof (cases r)
      case (Inl e)
      with n k show ?thesis by (intro exI [of _ new]) simp
    next
      case (Inr u)
      with k c(1,3) have "\<exists>token login stars commits nets1 nets2 template_text rendered.
              token_of w = Some token \<and> login_of args w = Some login \<and>
              list_all is_net nets1 \<and> list_all is_net nets2 \<and>
              fetch_total_stars P token login (trace w @ [Print (fetching_message login)]) =
                Some (Inr stars, trace w @ [Print (fetching_message login)] @ nets1) \<and>
              fetch_commit_total P token login
                  (trace w @ [Print (fetching_message login)] @ nets1) =
                (Inr commits, trace w @ [Print (fetching_message login)] @ nets1 @ nets2) \<and>
              files w (template_of args) = Some template_text \<and>
              render_template template_text (stats_mapping stars commits) = Inr rendered \<and>
              new = [Print (fetching_message login)] @ nets1 @ nets2 @
                    [Print (stars_message stars), Print (commits_message commits),
                     ReadFile (template_of args), WriteFile (readme_of args) rendered,
                     Print (updated_message P (readme_of args) (template_of args))] \<and>
              files w' = (files w)(readme_of args \<mapsto> rendered)"
        by (simp only: sum.case) blast
      with n Inr show ?thesis by (intro exI [of _ new]) simp
    qed
  qed
qed

theorem main_all_or_nothing_witness:
  "(\<exists>w'. main sample_platform sample_args (sample_world (ascii ''t'')) = Some (Inr (), w') \<and>
      files w' = (files (sample_world (ascii ''t'')))
                   (ascii ''README.md'' \<mapsto> ascii ''Stars 3 / commits 7'') \<and>
      length (filter is_write (trace w')) = 1) \<and>
   (\<exists>e w'. main sample_platform sample_args (sample_world (ascii ''expired'')) = Some (Inl e, w') \<and>
      files w' = files (sample_world (ascii ''expired'')) \<and>
      \<not> list_ex is_write (trace w'))"
proof -
  let ?w = "sample_world (ascii ''t'')"
  let ?x = "sample_world (ascii ''expired'')"
  note thm_t = main_all_or_nothing [of ?w sample_args sample_platform]
  note thm_x = main_all_or_nothing [of ?x sample_args sample_platform]
  obtain w1 where m1: "main sample_platform sample_args ?w = Some (Inr (), w1)"
    and f1: "files w1 = (files ?w)(ascii ''README.md'' \<mapsto> ascii ''Stars 3 / commits 7'')"
    and c1: "length (filter is_write (trace w1)) = 1"
    using sample_main by (simp add: is_write_def window_request_def)
  from thm_t m1 have "\<exists>rendered. files w1 = (files ?w)(readme_of sample_args \<mapsto> rendered)"
    by force
  with m1 f1 c1 have A: "\<exists>w'. main sample_platform sample_args ?w = Some (Inr (), w') \<and>
      files w' = (files ?w)(ascii ''README.md'' \<mapsto> ascii ''Stars 3 / commits 7'') \<and>
      length (filter is_write (trace w')) = 1" by blast
  have cfg: "token_of ?x = Some (ascii ''expired'') \<and> ascii ''expired'' \<noteq> [] \<and>
      login_of sample_args ?x = Some (ascii ''octo'') \<and> ascii ''octo'' \<noteq> [] \<and>
      fetch_total_stars sample_platform (ascii ''expired'') (ascii ''octo'')
        (trace ?x @ [Print (fetching_message (ascii ''octo''))]) =
      Some (Inl (RuntimeError (transport_message 401 (ascii ''Bad credentials''))),
            [Print (fetching_message (ascii ''octo'')),
             Net \<lparr>req_token = ascii ''expired'', req_query = StarsQuery,
               req_variables = [(ascii ''login'', JStr (ascii ''octo'')), (ascii ''cursor'', JNull)]\<rparr>])"
  proof -
    have ne: "ascii ''expired'' \<noteq> []" "ascii ''octo'' \<noteq> []" by simp_all
    show ?thesis by (simp add: sample_config sample_stars_fail ne del: ascii_simps)
  qed
  from thm_x cfg obtain w2 where
    m2: "main sample_platform sample_args ?x =
           Some (Inl (RuntimeError (transport_message 401 (ascii ''Bad credentials''))), w2)"
    by blast
  from thm_x m2 obtain new where "trace w2 = trace ?x @ new"
    "files w2 = files ?x \<and> \<not> list_ex is_write new" by force
  then have "files w2 = files ?x \<and> \<not> list_ex is_write (trace w2)"
    by (simp add: sample_config)
  with m2 have B: "\<exists>e w'. main sample_platform sample_args ?x = Some (Inl e, w') \<and>
      files w' = files ?x \<and> \<not> list_ex is_write (trace w')" by blast
  from A B show ?thesis by blast
qed

end
